theory Spec2Isabelle
  imports Main "HOL-Library.AList"
begin

section \<open>Word-row tables\<close>

text \<open>
  A table is a pandas DataFrame: a list of row labels (the index, each label a tuple with
  one entry per index level) and an ordered list of named columns, each holding one cell
  per row. Cells are null, booleans, integers or text. Row labels are integers, as word
  and paragraph ids are.
\<close>

datatype cell = CNull | CBool bool | CInt int | CStr string

record dataframe =
  index :: "int list list"
  nlevels :: nat
  columns :: "(string \<times> cell list) list"

definition column_names :: "dataframe \<Rightarrow> string list" where
  "column_names df = map fst (columns df)"

definition nrows :: "dataframe \<Rightarrow> nat" where
  "nrows df = length (index df)"

definition column_of :: "dataframe \<Rightarrow> string \<Rightarrow> cell list option" where
  "column_of df name = map_of (columns df) name"


datatype error =
  ValidationError | NotImplementedError | AttributeError | KeyError | ValueError | TypeError

section \<open>The pandas operations the code calls\<close>

text \<open>\<^verbatim>\<open>df[name] = values\<close>: an existing column is replaced where it stands, a new one
  is appended.\<close>

definition DataFrame_setitem :: "dataframe \<Rightarrow> string \<Rightarrow> cell list \<Rightarrow> dataframe" where
  "DataFrame_setitem df name vals = df\<lparr>columns := AList.update name vals (columns df)\<rparr>"

text \<open>\<^verbatim>\<open>df.name\<close>: attribute access to a column raises AttributeError when the table has
  no such column.\<close>

definition DataFrame_getattr :: "dataframe \<Rightarrow> string \<Rightarrow> error + cell list" where
  "DataFrame_getattr df name =
     (case column_of df name of None \<Rightarrow> Inl AttributeError | Some c \<Rightarrow> Inr c)"

text \<open>The integer a cell compares equal to in Python (\<^verbatim>\<open>True == 1\<close>), if any.\<close>

fun py_int :: "cell \<Rightarrow> int option" where
  "py_int (CInt n) = Some n"
| "py_int (CBool b) = Some (if b then 1 else 0)"
| "py_int CNull = None"
| "py_int (CStr s) = None"

text \<open>\<^verbatim>\<open>series.isin(values)\<close> for a collection of integer ids.\<close>

definition isin :: "cell \<Rightarrow> int set \<Rightarrow> bool" where
  "isin c vs = (case py_int c of None \<Rightarrow> False | Some n \<Rightarrow> n \<in> vs)"

text \<open>
  \<^verbatim>\<open>left.join(right, on=keys)\<close> is a left join of the key columns of \<open>left\<close> against
  the index of \<open>right\<close>. Each row of \<open>left\<close>, in order, is paired with every row of
  \<open>right\<close> whose label equals its key, or with no row when there is none; the result
  keeps the labels and columns of \<open>left\<close> and appends the columns of \<open>right\<close>, null
  where the row is unpaired.
\<close>

definition row_key :: "dataframe \<Rightarrow> string list \<Rightarrow> nat \<Rightarrow> int option list" where
  "row_key df on i =
     map (\<lambda>k. case column_of df k of None \<Rightarrow> None | Some c \<Rightarrow> py_int (c ! i)) on"

definition row_matches :: "dataframe \<Rightarrow> int option list \<Rightarrow> nat list" where
  "row_matches right key = filter (\<lambda>j. map Some (index right ! j) = key) [0..<nrows right]"

definition join_pairs :: "dataframe \<Rightarrow> dataframe \<Rightarrow> string list \<Rightarrow> (nat \<times> nat option) list" where
  "join_pairs left right on =
     concat (map (\<lambda>i. let ms = row_matches right (row_key left on i)
                       in if ms = [] then [(i, None)] else map (\<lambda>j. (i, Some j)) ms)
                 [0..<nrows left])"

text \<open>
  Before it merges, pandas compares what a key column holds with the integer labels, unless
  one of the two has no rows. A column of integers, of booleans, or of integers and nulls
  is numeric and is merged. Any other column is an array of objects: it is merged when an
  integer is among them, and refused with ValueError otherwise (text; or text, booleans
  and nulls mixed).
\<close>

definition is_int :: "cell \<Rightarrow> bool" where
  "is_int c = (case c of CInt n \<Rightarrow> True | _ \<Rightarrow> False)"

definition is_bool :: "cell \<Rightarrow> bool" where
  "is_bool c = (case c of CBool b \<Rightarrow> True | _ \<Rightarrow> False)"

definition numeric_column :: "cell list \<Rightarrow> bool" where
  "numeric_column c \<longleftrightarrow> list_all is_bool c \<or> list_all (\<lambda>x. is_int x \<or> x = CNull) c"

definition refused_key :: "dataframe \<Rightarrow> dataframe \<Rightarrow> string list \<Rightarrow> bool" where
  "refused_key left right on \<longleftrightarrow>
     index right \<noteq> [] \<and>
     list_ex (\<lambda>k. case column_of left k of
                    None \<Rightarrow> False
                  | Some c \<Rightarrow> c \<noteq> [] \<and> \<not> numeric_column c \<and> \<not> list_ex is_int c) on"

text \<open>
  A column of \<open>right\<close> gains nulls when some row of \<open>left\<close> is unpaired, and pandas then
  stores it in an array that can hold them: an array of 64-bit integers becomes an array
  of 64-bit floats, which rounds the integers beyond \<open>2\<^sup>5\<^sup>3\<close>; an array of objects is
  kept. In which array a column is stored is not a matter of its cells alone, so the
  conversion of a cell is left to pandas: \<open>null_storage name column cell\<close>. Nulls stay
  nulls, and a column that gains no null is kept as it is.
\<close>

record pandas =
  null_storage :: "string \<Rightarrow> cell list \<Rightarrow> cell \<Rightarrow> cell"

definition stored :: "pandas \<Rightarrow> bool \<Rightarrow> string \<times> cell list \<Rightarrow> cell \<Rightarrow> cell" where
  "stored P gains_null c v =
     (if gains_null \<and> v \<noteq> CNull then null_storage P (fst c) (snd c) v else v)"

text \<open>pandas raises ValueError when the number of keys differs from the number of index
  levels, KeyError when a key column is missing, ValueError when a key column is refused,
  and ValueError when the two tables share a column name.\<close>

definition join_frames ::
  "pandas \<Rightarrow> dataframe \<Rightarrow> dataframe \<Rightarrow> string list \<Rightarrow> error + dataframe" where
  "join_frames P left right on =
     (if length on \<noteq> nlevels right then Inl ValueError
      else if \<not> set on \<subseteq> set (column_names left) then Inl KeyError
      else if refused_key left right on then Inl ValueError
      else if set (column_names left) \<inter> set (column_names right) \<noteq> {} then Inl ValueError
      else let ps = join_pairs left right on;
               gains_null = list_ex (\<lambda>p. snd p = None) ps in
        Inr \<lparr>index = map (\<lambda>p. index left ! fst p) ps,
             nlevels = nlevels left,
             columns =
               map (\<lambda>c. (fst c, map (\<lambda>p. snd c ! fst p) ps)) (columns left) @
               map (\<lambda>c. (fst c, map (\<lambda>p. case snd p of
                                           None \<Rightarrow> CNull
                                         | Some j \<Rightarrow> stored P gains_null c (snd c ! j)) ps))
                   (columns right)\<rparr>)"

section \<open>Objects\<close>

text \<open>
  Tables are mutable objects that the methods share by reference. The store is the list
  of all tables created so far; a reference is a position in it, and a new table is
  appended. Every method takes the store and returns its outcome (an error raised, or the
  value returned) together with the store it leaves.
\<close>

type_synonym ref = nat
type_synonym heap = "dataframe list"

text \<open>\<^verbatim>\<open>df.join(other, on=keys)\<close> creates a new table. When \<open>other\<close> is not a table
  (here: \<^verbatim>\<open>None\<close>) and keys are given, pandas raises ValueError.\<close>

definition DataFrame_join ::
  "pandas \<Rightarrow> heap \<Rightarrow> ref \<Rightarrow> ref option \<Rightarrow> string list \<Rightarrow> (error + ref) \<times> heap" where
  "DataFrame_join P h df other on =
     (case other of
        None \<Rightarrow> (Inl ValueError, h)
      | Some r \<Rightarrow>
          (case join_frames P (h ! df) (h ! r) on of
             Inl e \<Rightarrow> (Inl e, h)
           | Inr t \<Rightarrow> (Inr (length h), h @ [t])))"

section \<open>validations\<close>

text \<open>The module \<^verbatim>\<open>validations\<close> exports the list of coordinate columns.\<close>

record validations =
  WordCoordinates :: "string list"

text \<open>Modelled from the spec: \<^verbatim>\<open>validations.ensure_df_contains(required_columns, table)\<close>,
  which is not among the source files, "fails if any required column is absent".\<close>

definition ensure_df_contains :: "string list \<Rightarrow> dataframe \<Rightarrow> error + unit" where
  "ensure_df_contains cols df =
     (if list_all (\<lambda>c. c \<in> set (column_names df)) cols then Inr () else Inl ValidationError)"

section \<open>NlpAlgorithm\<close>

text \<open>An algorithm object: its three fields, and the \<^verbatim>\<open>_run_inner\<close> of its class.\<close>

record NlpAlgorithm =
  status_column :: string
  suggest_column :: "string option"
  algorithm_required_columns :: "string list"
  run_inner :: "heap \<Rightarrow> ref \<Rightarrow> (error + unit) \<times> heap"

text \<open>The base class: \<^verbatim>\<open>_run_inner\<close> raises NotImplementedError.\<close>

definition NlpAlgorithm_init :: "string \<Rightarrow> string option \<Rightarrow> string list \<Rightarrow> NlpAlgorithm" where
  "NlpAlgorithm_init status suggest required =
     \<lparr>status_column = status, suggest_column = suggest,
      algorithm_required_columns = required,
      run_inner = (\<lambda>h df. (Inl NotImplementedError, h))\<rparr>"

definition get_status_column :: "NlpAlgorithm \<Rightarrow> string" where
  "get_status_column self = status_column self"

definition get_suggest_column :: "NlpAlgorithm \<Rightarrow> string option" where
  "get_suggest_column self = suggest_column self"

definition NlpAlgorithm_validate_input ::
  "validations \<Rightarrow> NlpAlgorithm \<Rightarrow> heap \<Rightarrow> ref \<Rightarrow> error + unit" where
  "NlpAlgorithm_validate_input V self h df =
     ensure_df_contains
       (WordCoordinates V @ [''check_requested''] @ algorithm_required_columns self) (h ! df)"

definition put_check_requested :: "heap \<Rightarrow> ref \<Rightarrow> int set option \<Rightarrow> (error + ref) \<times> heap" where
  "put_check_requested h df paragraphs_to_check =
     (case paragraphs_to_check of
        None \<Rightarrow>
          (Inr df, h[df := DataFrame_setitem (h ! df) ''check_requested''
                              (replicate (nrows (h ! df)) (CBool True))])
      | Some vs \<Rightarrow>
          (case DataFrame_getattr (h ! df) ''paragraph_id'' of
             Inl e \<Rightarrow> (Inl e, h)
           | Inr ids \<Rightarrow>
               (Inr df, h[df := DataFrame_setitem (h ! df) ''check_requested''
                                   (map (\<lambda>c. CBool (isin c vs)) ids)])))"

definition NlpAlgorithm_run ::
  "validations \<Rightarrow> NlpAlgorithm \<Rightarrow> heap \<Rightarrow> ref \<Rightarrow> (error + unit) \<times> heap" where
  "NlpAlgorithm_run V self h df =
     (case put_check_requested h df None of
        (Inl e, h1) \<Rightarrow> (Inl e, h1)
      | (Inr r, h1) \<Rightarrow>
          (case NlpAlgorithm_validate_input V self h1 df of
             Inl e \<Rightarrow> (Inl e, h1)
           | Inr u \<Rightarrow> run_inner self h1 df))"

text \<open>The paragraph separator is outside the source files: it turns text into a new
  table, or fails.\<close>

record Separator =
  separate_paragraphs :: "string list \<Rightarrow> error + dataframe"
  separate_string :: "string \<Rightarrow> error + dataframe"

definition run_on_text ::
  "validations \<Rightarrow> Separator \<Rightarrow> NlpAlgorithm \<Rightarrow> heap \<Rightarrow> string list \<Rightarrow> int set option
     \<Rightarrow> (error + ref) \<times> heap" where
  "run_on_text V Sep self h text paragraphs_to_check =
     (case separate_paragraphs Sep text of
        Inl e \<Rightarrow> (Inl e, h)
      | Inr t \<Rightarrow>
          (let df = length h in
           case NlpAlgorithm_run V self (h @ [t]) df of
             (Inl e, h1) \<Rightarrow> (Inl e, h1)
           | (Inr u, h1) \<Rightarrow> (Inr df, h1)))"

definition run_on_string ::
  "validations \<Rightarrow> Separator \<Rightarrow> NlpAlgorithm \<Rightarrow> heap \<Rightarrow> string \<Rightarrow> int set option
     \<Rightarrow> (error + ref) \<times> heap" where
  "run_on_string V Sep self h s paragraphs_to_check =
     (case separate_string Sep s of
        Inl e \<Rightarrow> (Inl e, h)
      | Inr t \<Rightarrow>
          (let df = length h in
           case NlpAlgorithm_run V self (h @ [t]) df of
             (Inl e, h1) \<Rightarrow> (Inl e, h1)
           | (Inr u, h1) \<Rightarrow> (Inr df, h1)))"

section \<open>NlpAnalyzer\<close>

text \<open>An analyzer object: its two fields, and the \<^verbatim>\<open>_analyze_inner\<close> of its class,
  which returns a table, \<^verbatim>\<open>None\<close>, or raises.\<close>

record NlpAnalyzer =
  join_by :: "string list"
  analyzer_required_columns :: "string list"
  analyze_inner :: "heap \<Rightarrow> ref \<Rightarrow> (error + ref option) \<times> heap"

text \<open>The base class: \<^verbatim>\<open>_analyze_inner\<close> raises NotImplementedError.\<close>

definition NlpAnalyzer_init :: "string list \<Rightarrow> string list \<Rightarrow> NlpAnalyzer" where
  "NlpAnalyzer_init join_by_columns required =
     \<lparr>join_by = join_by_columns, analyzer_required_columns = required,
      analyze_inner = (\<lambda>h df. (Inl NotImplementedError, h))\<rparr>"

text \<open>PyMorphAnalyzer: joined by \<^verbatim>\<open>word_id\<close>, no further required columns, and an
  \<^verbatim>\<open>_analyze_inner\<close> whose body is \<^verbatim>\<open>pass\<close>.\<close>

definition PyMorphAnalyzer_init :: NlpAnalyzer where
  "PyMorphAnalyzer_init =
     (NlpAnalyzer_init [''word_id''] [])\<lparr>analyze_inner := (\<lambda>h df. (Inr None, h))\<rparr>"

definition NlpAnalyzer_validate_input ::
  "validations \<Rightarrow> NlpAnalyzer \<Rightarrow> heap \<Rightarrow> ref \<Rightarrow> error + unit" where
  "NlpAnalyzer_validate_input V self h df =
     ensure_df_contains (WordCoordinates V @ analyzer_required_columns self) (h ! df)"

definition NlpAnalyzer_analyze ::
  "validations \<Rightarrow> NlpAnalyzer \<Rightarrow> heap \<Rightarrow> ref \<Rightarrow> (error + ref option) \<times> heap" where
  "NlpAnalyzer_analyze V self h df =
     (case NlpAnalyzer_validate_input V self h df of
        Inl e \<Rightarrow> (Inl e, h)
      | Inr u \<Rightarrow> analyze_inner self h df)"

definition NlpAnalyzer_apply ::
  "pandas \<Rightarrow> validations \<Rightarrow> NlpAnalyzer \<Rightarrow> heap \<Rightarrow> ref \<Rightarrow> (error + ref) \<times> heap" where
  "NlpAnalyzer_apply P V self h df =
     (case NlpAnalyzer_analyze V self h df of
        (Inl e, h1) \<Rightarrow> (Inl e, h1)
      | (Inr other, h1) \<Rightarrow> DataFrame_join P h1 df other (join_by self))"

section \<open>NlpAnalyzationPipeline\<close>

record NlpAnalyzationPipeline =
  analyzers :: "(string \<times> NlpAnalyzer) list"

text \<open>\<^verbatim>\<open>typing.List\<close> takes one parameter: subscripted with any other number of
  parameters it raises TypeError.\<close>

definition typing_List :: "nat \<Rightarrow> error + unit" where
  "typing_List n = (if n = 1 then Inr () else Inl TypeError)"

text \<open>
  The class body. The parameter of \<^verbatim>\<open>__init__\<close> is annotated
  \<^verbatim>\<open>List[(str, NlpAnalyzer)]\<close>, which is \<^verbatim>\<open>List[str, NlpAnalyzer]\<close>. An interpreter that
  evaluates annotations when a function is defined (every Python before 3.14; the module
  does not defer them) evaluates the subscript, so the class statement raises and there is
  no class. The other annotations of the class are well formed.
\<close>

definition NlpAnalyzationPipeline_class :: "bool \<Rightarrow> error + unit" where
  "NlpAnalyzationPipeline_class eager_annotations =
     (if eager_annotations then typing_List 2 else Inr ())"

text \<open>Building a pipeline needs the class; \<^verbatim>\<open>__init__\<close> stores the list.\<close>

definition NlpAnalyzationPipeline_init ::
  "bool \<Rightarrow> (string \<times> NlpAnalyzer) list \<Rightarrow> error + NlpAnalyzationPipeline" where
  "NlpAnalyzationPipeline_init eager_annotations named_analyzers =
     (case NlpAnalyzationPipeline_class eager_annotations of
        Inl e \<Rightarrow> Inl e
      | Inr u \<Rightarrow> Inr \<lparr>analyzers = named_analyzers\<rparr>)"

text \<open>The loop of \<^verbatim>\<open>analyze_dataframe\<close>; \<open>results\<close> is the dictionary built so far,
  in insertion order.\<close>

fun analyze_dataframe_loop ::
  "pandas \<Rightarrow> validations \<Rightarrow> (string \<times> NlpAnalyzer) list \<Rightarrow> heap \<Rightarrow> ref
     \<Rightarrow> (string \<times> ref) list \<Rightarrow> (error + (string \<times> ref) list) \<times> heap" where
  "analyze_dataframe_loop P V [] h df results = (Inr results, h)"
| "analyze_dataframe_loop P V (na # rest) h df results =
     (case NlpAnalyzer_apply P V (snd na) h df of
        (Inl e, h1) \<Rightarrow> (Inl e, h1)
      | (Inr r, h1) \<Rightarrow>
          analyze_dataframe_loop P V rest h1 df (AList.update (fst na) r results))"

definition analyze_dataframe ::
  "pandas \<Rightarrow> validations \<Rightarrow> NlpAnalyzationPipeline \<Rightarrow> heap \<Rightarrow> ref
     \<Rightarrow> (error + (string \<times> ref) list) \<times> heap" where
  "analyze_dataframe P V self h df = analyze_dataframe_loop P V (analyzers self) h df []"

text \<open>A data source yields data or fails; \<^verbatim>\<open>pd.DataFrame\<close> builds a new table from the
  data. Both are outside the source files.\<close>

record 'd DataSource =
  get_data :: "error + 'd"

definition NlpAnalyzationPipeline_analyze ::
  "pandas \<Rightarrow> validations \<Rightarrow> ('d \<Rightarrow> error + dataframe) \<Rightarrow> NlpAnalyzationPipeline \<Rightarrow> heap
     \<Rightarrow> 'd DataSource \<Rightarrow> (error + (string \<times> ref) list) \<times> heap" where
  "NlpAnalyzationPipeline_analyze P V DataFrame self h source =
     (case get_data source of
        Inl e \<Rightarrow> (Inl e, h)
      | Inr d \<Rightarrow>
          (case DataFrame d of
             Inl e \<Rightarrow> (Inl e, h)
           | Inr t \<Rightarrow> analyze_dataframe P V self (h @ [t]) (length h)))"

text \<open>A source handed to a featurization job is a data source or the mock source that
  wraps a table.\<close>

datatype 'd source = MockDfDataSource ref | Source "'d DataSource"

text \<open>\<^verbatim>\<open>dict(pairs)\<close>: a later pair replaces an earlier one with the same key.\<close>

definition dict :: "('k \<times> 'v) list \<Rightarrow> ('k \<times> 'v) list" where
  "dict kvs = foldl (\<lambda>d kv. AList.update (fst kv) (snd kv) d) [] kvs"

text \<open>
  The keyword arguments of a call, by name. Python raises TypeError when a keyword names
  a parameter that the call already fills by position (\<^verbatim>\<open>self\<close>, \<^verbatim>\<open>df\<close>,
  \<^verbatim>\<open>source\<close>), and when \<^verbatim>\<open>**kwargs\<close> repeats a keyword that the call writes out
  (\<^verbatim>\<open>source\<close>, \<^verbatim>\<open>featurizers\<close>). The class FeaturizationJob is outside the source
  files: its constructor is a parameter, given the source, the featurizers and the remaining
  keyword arguments.
\<close>

definition keyword_names :: "(string \<times> 'v) list \<Rightarrow> string set" where
  "keyword_names kwargs = set (map fst kwargs)"

definition source_to_featurization_job ::
  "('d source \<Rightarrow> (string \<times> NlpAnalyzer) list \<Rightarrow> (string \<times> 'v) list \<Rightarrow> error + 'j)
     \<Rightarrow> NlpAnalyzationPipeline \<Rightarrow> 'd source \<Rightarrow> (string \<times> 'v) list \<Rightarrow> error + 'j" where
  "source_to_featurization_job FeaturizationJob self source kwargs =
     (if ''self'' \<in> keyword_names kwargs \<or> ''source'' \<in> keyword_names kwargs then Inl TypeError
      else if ''featurizers'' \<in> keyword_names kwargs then Inl TypeError
      else FeaturizationJob source (dict (analyzers self)) kwargs)"

definition df_to_featurization_job ::
  "('d source \<Rightarrow> (string \<times> NlpAnalyzer) list \<Rightarrow> (string \<times> 'v) list \<Rightarrow> error + 'j)
     \<Rightarrow> NlpAnalyzationPipeline \<Rightarrow> ref \<Rightarrow> (string \<times> 'v) list \<Rightarrow> error + 'j" where
  "df_to_featurization_job FeaturizationJob self df kwargs =
     (if ''self'' \<in> keyword_names kwargs \<or> ''df'' \<in> keyword_names kwargs then Inl TypeError
      else source_to_featurization_job FeaturizationJob self (MockDfDataSource df) kwargs)"

text \<open>Modelled from the spec: the class FeaturizationJob, which is not among the source
  files, "accepts a source, a mapping of named featurizers, and optional
  name/version/destination configuration". A call with any other keyword raises
  TypeError, as every Python call with a keyword it does not accept.\<close>

record ('d, 'v) FeaturizationJob =
  job_source :: "'d source"
  featurizers :: "(string \<times> NlpAnalyzer) list"
  job_kwargs :: "(string \<times> 'v) list"

definition FeaturizationJob_init ::
  "'d source \<Rightarrow> (string \<times> NlpAnalyzer) list \<Rightarrow> (string \<times> 'v) list
     \<Rightarrow> error + ('d, 'v) FeaturizationJob" where
  "FeaturizationJob_init source named_featurizers kwargs =
     (if keyword_names kwargs \<subseteq> {''name'', ''version'', ''destination''}
      then Inr \<lparr>job_source = source, featurizers = named_featurizers, job_kwargs = kwargs\<rparr>
      else Inl TypeError)"

section \<open>Notions used in the statements\<close>

text \<open>A table with \<^verbatim>\<open>check_requested\<close> set to true in every row.\<close>

abbreviation all_requested :: "dataframe \<Rightarrow> dataframe" where
  "all_requested t \<equiv>
     DataFrame_setitem t ''check_requested'' (replicate (nrows t) (CBool True))"




text \<open>An inner step that reads the table it is given, changes nothing, and returns a new
  table, \<^verbatim>\<open>None\<close>, or raises.\<close>

definition returns_new_table ::
  "(dataframe \<Rightarrow> error + dataframe option) \<Rightarrow> heap \<Rightarrow> ref \<Rightarrow> (error + ref option) \<times> heap" where
  "returns_new_table g h df =
     (case g (h ! df) of
        Inl e \<Rightarrow> (Inl e, h)
      | Inr None \<Rightarrow> (Inr None, h)
      | Inr (Some t) \<Rightarrow> (Inr (Some (length h)), h @ [t]))"

text \<open>The table that \<^verbatim>\<open>apply\<close> of an analyzer returns for a table taken on its own.\<close>

definition table_of_apply ::
  "pandas \<Rightarrow> validations \<Rightarrow> NlpAnalyzer \<Rightarrow> dataframe \<Rightarrow> error + dataframe" where
  "table_of_apply P V a t =
     (case NlpAnalyzer_apply P V a [t] 0 of
        (Inl e, h') \<Rightarrow> Inl e
      | (Inr r, h') \<Rightarrow> Inr (h' ! r))"

text \<open>An analyzer whose inner step only reads its table and returns a new one.\<close>

definition reads_only :: "NlpAnalyzer \<Rightarrow> bool" where
  "reads_only a = (\<exists>g. analyze_inner a = returns_new_table g)"

text \<open>The inner step of an analyzer, called on the table \<open>df\<close>, changes no table that
  exists when it is called (it may create tables).\<close>

definition changes_no_table :: "NlpAnalyzer \<Rightarrow> ref \<Rightarrow> bool" where
  "changes_no_table a df \<longleftrightarrow>
     (\<forall>h. df < length h \<longrightarrow>
        length h \<le> length (snd (analyze_inner a h df)) \<and>
        (\<forall>r<length h. snd (analyze_inner a h df) ! r = h ! r))"

text \<open>\<^verbatim>\<open>apply\<close> of an analyzer returns a table whenever it is called on the table \<open>t\<close>.\<close>

definition apply_returns :: "pandas \<Rightarrow> validations \<Rightarrow> NlpAnalyzer \<Rightarrow> ref \<Rightarrow> dataframe \<Rightarrow> bool" where
  "apply_returns P V a df t \<longleftrightarrow>
     (\<forall>h. df < length h \<and> h ! df = t \<longrightarrow> (\<exists>r h'. NlpAnalyzer_apply P V a h df = (Inr r, h')))"

section \<open>Examples\<close>

text \<open>
  The pandas of the examples stores a column of integers that fit 64 bits as an integer
  array, and every other column as an array of objects. \<open>float64 n\<close> is the integer
  nearest to \<open>n\<close> that a 64-bit float holds (53 significant bits, ties to even).
\<close>

fun bitlen :: "nat \<Rightarrow> nat" where
  "bitlen n = (if n = 0 then 0 else Suc (bitlen (n div 2)))"

declare bitlen.simps [simp del]

definition float64 :: "int \<Rightarrow> int" where
  "float64 n =
     (if \<bar>n\<bar> < 2 ^ 53 then n
      else let s = bitlen (nat \<bar>n\<bar>) - 53;
               q = \<bar>n\<bar> div 2 ^ s;
               r = \<bar>n\<bar> mod 2 ^ s
           in sgn n * (if 2 * r > 2 ^ s \<or> (2 * r = 2 ^ s \<and> odd q) then q + 1 else q) * 2 ^ s)"

definition is_int64 :: "cell \<Rightarrow> bool" where
  "is_int64 c = (case c of CInt n \<Rightarrow> - (2 ^ 63) \<le> n \<and> n < 2 ^ 63 | _ \<Rightarrow> False)"

definition example_pandas :: pandas where
  "example_pandas =
     \<lparr>null_storage =
        (\<lambda>name column v.
           if list_all is_int64 column
           then (case v of CInt n \<Rightarrow> CInt (float64 n) | _ \<Rightarrow> v)
           else v)\<rparr>"

text \<open>A two-row word table whose rows both lie in paragraph 1.\<close>

definition two_row_table :: dataframe where
  "two_row_table =
     \<lparr>index = [[0], [1]], nlevels = 1,
      columns = [(''word_id'', [CInt 0, CInt 1]), (''sentence_id'', [CInt 0, CInt 0]),
                 (''paragraph_id'', [CInt 1, CInt 1])]\<rparr>"

text \<open>A value for the coordinate columns, and the two-row table after
  \<^verbatim>\<open>check_requested\<close> has been set in every row.\<close>

definition example_validations :: validations where
  "example_validations = \<lparr>WordCoordinates = [''word_id'', ''sentence_id'', ''paragraph_id'']\<rparr>"

definition checked_table :: dataframe where
  "checked_table =
     \<lparr>index = [[0], [1]], nlevels = 1,
      columns = [(''word_id'', [CInt 0, CInt 1]), (''sentence_id'', [CInt 0, CInt 0]),
                 (''paragraph_id'', [CInt 1, CInt 1]),
                 (''check_requested'', [CBool True, CBool True])]\<rparr>"

text \<open>A subclass of NlpAlgorithm whose \<^verbatim>\<open>_run_inner\<close> writes its status column, the
  table it leaves, and a separator that answers with the two-row table.\<close>

definition status_table :: dataframe where
  "status_table =
     \<lparr>index = [[0], [1]], nlevels = 1,
      columns = [(''word_id'', [CInt 0, CInt 1]), (''sentence_id'', [CInt 0, CInt 0]),
                 (''paragraph_id'', [CInt 1, CInt 1]),
                 (''check_requested'', [CBool True, CBool True]),
                 (''status'', [CBool True, CBool True])]\<rparr>"

definition example_algorithm :: NlpAlgorithm where
  "example_algorithm =
     (NlpAlgorithm_init ''status'' None [])
       \<lparr>run_inner := (\<lambda>h df. (Inr (), h[df := DataFrame_setitem (h ! df) ''status''
                                              (replicate (nrows (h ! df)) (CBool True))]))\<rparr>"

definition example_separator :: Separator where
  "example_separator =
     \<lparr>separate_paragraphs = (\<lambda>text. Inr two_row_table),
      separate_string = (\<lambda>s. Inr two_row_table)\<rparr>"

text \<open>Analyzers that return one derived column \<^verbatim>\<open>X\<close> keyed by \<^verbatim>\<open>word_id\<close>: one with
  a row for word 0 only, one with two rows for word 0; and the tables that \<^verbatim>\<open>apply\<close>
  makes of them from the two-row table.\<close>

definition derived_table :: dataframe where
  "derived_table = \<lparr>index = [[0]], nlevels = 1, columns = [(''X'', [CInt 7])]\<rparr>"

definition duplicate_table :: dataframe where
  "duplicate_table = \<lparr>index = [[0], [0]], nlevels = 1, columns = [(''X'', [CInt 7, CInt 8])]\<rparr>"

definition example_analyzer :: NlpAnalyzer where
  "example_analyzer =
     (NlpAnalyzer_init [''word_id''] [])
       \<lparr>analyze_inner := returns_new_table (\<lambda>t. Inr (Some derived_table))\<rparr>"

definition duplicating_analyzer :: NlpAnalyzer where
  "duplicating_analyzer =
     (NlpAnalyzer_init [''word_id''] [])
       \<lparr>analyze_inner := returns_new_table (\<lambda>t. Inr (Some duplicate_table))\<rparr>"

definition joined_table :: dataframe where
  "joined_table =
     \<lparr>index = [[0], [1]], nlevels = 1,
      columns = [(''word_id'', [CInt 0, CInt 1]), (''sentence_id'', [CInt 0, CInt 0]),
                 (''paragraph_id'', [CInt 1, CInt 1]), (''X'', [CInt 7, CNull])]\<rparr>"

definition duplicated_table :: dataframe where
  "duplicated_table =
     \<lparr>index = [[0], [0], [1]], nlevels = 1,
      columns = [(''word_id'', [CInt 0, CInt 0, CInt 1]),
                 (''sentence_id'', [CInt 0, CInt 0, CInt 0]),
                 (''paragraph_id'', [CInt 1, CInt 1, CInt 1]),
                 (''X'', [CInt 7, CInt 8, CNull])]\<rparr>"

text \<open>An analyzer whose inner step also writes a column \<^verbatim>\<open>tmp\<close> into the table it
  is given, the table so marked, and the table that \<^verbatim>\<open>apply\<close> then returns.\<close>

definition marked_table :: dataframe where
  "marked_table =
     \<lparr>index = [[0], [1]], nlevels = 1,
      columns = [(''word_id'', [CInt 0, CInt 1]), (''sentence_id'', [CInt 0, CInt 0]),
                 (''paragraph_id'', [CInt 1, CInt 1]), (''tmp'', [CBool True, CBool True])]\<rparr>"

definition marking_analyzer :: NlpAnalyzer where
  "marking_analyzer =
     (NlpAnalyzer_init [''word_id''] [])
       \<lparr>analyze_inner :=
          (\<lambda>h df. (Inr (Some (length h)),
                    h[df := DataFrame_setitem (h ! df) ''tmp''
                              (replicate (nrows (h ! df)) (CBool True))] @ [derived_table]))\<rparr>"

definition marked_joined_table :: dataframe where
  "marked_joined_table =
     \<lparr>index = [[0], [1]], nlevels = 1,
      columns = [(''word_id'', [CInt 0, CInt 1]), (''sentence_id'', [CInt 0, CInt 0]),
                 (''paragraph_id'', [CInt 1, CInt 1]), (''tmp'', [CBool True, CBool True]),
                 (''X'', [CInt 7, CNull])]\<rparr>"

text \<open>An analyzer table with an integer beyond \<open>2\<^sup>5\<^sup>3\<close>, and its join with the two-row
  table.\<close>

definition large_table :: dataframe where
  "large_table =
     \<lparr>index = [[0]], nlevels = 1, columns = [(''X'', [CInt 9007199254740993])]\<rparr>"

definition rounded_table :: dataframe where
  "rounded_table =
     \<lparr>index = [[0], [1]], nlevels = 1,
      columns = [(''word_id'', [CInt 0, CInt 1]), (''sentence_id'', [CInt 0, CInt 0]),
                 (''paragraph_id'', [CInt 1, CInt 1]),
                 (''X'', [CInt 9007199254740992, CNull])]\<rparr>"

text \<open>Pipelines.\<close>

definition morph_pipeline :: NlpAnalyzationPipeline where
  "morph_pipeline = \<lparr>analyzers = [(''morph'', PyMorphAnalyzer_init)]\<rparr>"

definition two_name_pipeline :: NlpAnalyzationPipeline where
  "two_name_pipeline =
     \<lparr>analyzers = [(''a'', example_analyzer), (''b'', duplicating_analyzer)]\<rparr>"

definition marking_pipeline :: NlpAnalyzationPipeline where
  "marking_pipeline =
     \<lparr>analyzers = [(''a'', marking_analyzer), (''b'', example_analyzer)]\<rparr>"

section \<open>Facts about the table operations\<close>

lemma nrows_setitem [simp]: "nrows (DataFrame_setitem df name vals) = nrows df"
  by (simp add: nrows_def DataFrame_setitem_def)

lemma index_setitem [simp]: "index (DataFrame_setitem df name vals) = index df"
  by (simp add: DataFrame_setitem_def)

lemma column_of_setitem:
  "column_of (DataFrame_setitem df name vals) n = (if n = name then Some vals else column_of df n)"
  by (simp add: column_of_def DataFrame_setitem_def update_conv')

section \<open>NlpAlgorithm.put_check_requested\<close>

text \<open>
  C2. \<^verbatim>\<open>put_check_requested(table, paragraphs_to_check)\<close> returns the reference it was
  given and changes that table only, keeping its row labels and every other column. With
  \<^verbatim>\<open>None\<close> the column \<^verbatim>\<open>check_requested\<close> is true in every row. With a set of ids,
  on a table that has its \<^verbatim>\<open>paragraph_id\<close> column, the column holds in each row the
  boolean "the paragraph id of this row is in the set"; for an integer id that is plain
  membership.
\<close>

theorem put_check_requested_marks_rows:
  "df < length h \<Longrightarrow>
     (case put_check_requested h df None of (res, h') \<Rightarrow>
        res = Inr df \<and> length h' = length h \<and> (\<forall>r. r \<noteq> df \<longrightarrow> h' ! r = h ! r) \<and>
        index (h' ! df) = index (h ! df) \<and>
        (\<forall>n. column_of (h' ! df) n =
           (if n = ''check_requested'' then Some (replicate (nrows (h ! df)) (CBool True))
            else column_of (h ! df) n))) \<and>
     (\<forall>vs ids. column_of (h ! df) ''paragraph_id'' = Some ids \<longrightarrow>
        (case put_check_requested h df (Some vs) of (res, h') \<Rightarrow>
           res = Inr df \<and> length h' = length h \<and> (\<forall>r. r \<noteq> df \<longrightarrow> h' ! r = h ! r) \<and>
           index (h' ! df) = index (h ! df) \<and>
           (\<forall>n. column_of (h' ! df) n =
              (if n = ''check_requested'' then Some (map (\<lambda>c. CBool (isin c vs)) ids)
               else column_of (h ! df) n)))) \<and>
     (\<forall>n vs. isin (CInt n) vs = (n \<in> vs))"
  by (simp add: put_check_requested_def DataFrame_getattr_def column_of_setitem isin_def)

text \<open>The two-row table with \<^verbatim>\<open>paragraph_id = [1, 1]\<close>: the set \<open>{2}\<close> gives
  \<^verbatim>\<open>[False, False]\<close>, and \<^verbatim>\<open>None\<close> gives \<^verbatim>\<open>[True, True]\<close>.\<close>

theorem put_check_requested_marks_rows_witness:
  "(0::nat) < length [two_row_table] \<and>
   column_of two_row_table ''paragraph_id'' = Some [CInt 1, CInt 1] \<and>
   fst (put_check_requested [two_row_table] 0 (Some {2})) = Inr 0 \<and>
   column_of (snd (put_check_requested [two_row_table] 0 (Some {2})) ! 0) ''check_requested''
     = Some [CBool False, CBool False] \<and>
   fst (put_check_requested [two_row_table] 0 None) = Inr 0 \<and>
   column_of (snd (put_check_requested [two_row_table] 0 None) ! 0) ''check_requested''
     = Some [CBool True, CBool True]"
proof -
  have live: "(0::nat) < length [two_row_table]" by simp
  have ids: "column_of two_row_table ''paragraph_id'' = Some [CInt 1, CInt 1]"
    by (simp add: column_of_def two_row_table_def)
  have n: "nrows two_row_table = 2" by (simp add: nrows_def two_row_table_def)
  note t = put_check_requested_marks_rows [OF live]
  from t have a: "case put_check_requested [two_row_table] 0 None of (res, h') \<Rightarrow>
        res = Inr 0 \<and> column_of (h' ! 0) ''check_requested'' = Some (replicate 2 (CBool True))"
    using n by (simp add: split_beta)
  from t ids have b: "case put_check_requested [two_row_table] 0 (Some {2}) of (res, h') \<Rightarrow>
        res = Inr 0 \<and> column_of (h' ! 0) ''check_requested'' =
          Some (map (\<lambda>c. CBool (isin c {2})) [CInt 1, CInt 1])"
    by (simp add: split_beta)
  have c: "replicate 2 (CBool True) = [CBool True, CBool True]" by (simp add: numeral_2_eq_2)
  from a b c live ids show ?thesis
    by (simp add: split_beta isin_def)
qed

lemma set_column_names_setitem:
  "set (column_names (DataFrame_setitem df name vals)) = insert name (set (column_names df))"
  by (simp add: column_names_def DataFrame_setitem_def dom_update)

lemma ensure_df_contains_missing:
  "c \<in> set cols \<Longrightarrow> c \<notin> set (column_names df) \<Longrightarrow> ensure_df_contains cols df = Inl ValidationError"
  by (auto simp add: ensure_df_contains_def list_all_iff)

lemma ensure_df_contains_present:
  "set cols \<subseteq> set (column_names df) \<Longrightarrow> ensure_df_contains cols df = Inr ()"
  by (auto simp add: ensure_df_contains_def list_all_iff)

lemma put_check_requested_None:
  "put_check_requested h df None =
     (Inr df, h[df := DataFrame_setitem (h ! df) ''check_requested''
                         (replicate (nrows (h ! df)) (CBool True))])"
  by (simp add: put_check_requested_def)

section \<open>Missing required columns\<close>

text \<open>
  C1, as the code has it. On a table that lacks a required column, \<^verbatim>\<open>analyze\<close> and
  \<^verbatim>\<open>apply\<close> of an analyzer raise the validation error without running the inner step,
  and leave every table as it was. \<^verbatim>\<open>NlpAlgorithm.run\<close> raises the validation error
  without running the inner step too, but only after \<^verbatim>\<open>put_check_requested\<close>: when
  the error is raised the table has the column \<^verbatim>\<open>check_requested\<close>, true in every row,
  and is otherwise as it was. (A required column named \<^verbatim>\<open>check_requested\<close> is never
  missing in \<^verbatim>\<open>run\<close>, which supplies it.)
\<close>

theorem missing_column_fails_before_inner_step:
  "df < length h \<Longrightarrow>
     (\<forall>c. c \<in> set (WordCoordinates V @ analyzer_required_columns a) \<and>
          c \<notin> set (column_names (h ! df)) \<longrightarrow>
          NlpAnalyzer_analyze V a h df = (Inl ValidationError, h) \<and>
          NlpAnalyzer_apply P V a h df = (Inl ValidationError, h)) \<and>
     (\<forall>c. c \<in> set (WordCoordinates V @ algorithm_required_columns alg) \<and>
          c \<noteq> ''check_requested'' \<and> c \<notin> set (column_names (h ! df)) \<longrightarrow>
          NlpAlgorithm_run V alg h df =
            (Inl ValidationError,
             h[df := DataFrame_setitem (h ! df) ''check_requested''
                       (replicate (nrows (h ! df)) (CBool True))]))"
proof (intro conjI allI impI)
  fix c
  assume c: "c \<in> set (WordCoordinates V @ analyzer_required_columns a) \<and>
          c \<notin> set (column_names (h ! df))"
  then have v: "NlpAnalyzer_validate_input V a h df = Inl ValidationError"
    unfolding NlpAnalyzer_validate_input_def by (intro ensure_df_contains_missing [of c]) auto
  then show an: "NlpAnalyzer_analyze V a h df = (Inl ValidationError, h)"
    by (simp add: NlpAnalyzer_analyze_def)
  then show "NlpAnalyzer_apply P V a h df = (Inl ValidationError, h)"
    by (simp add: NlpAnalyzer_apply_def)
next
  fix c
  assume live: "df < length h"
  assume c: "c \<in> set (WordCoordinates V @ algorithm_required_columns alg) \<and>
          c \<noteq> ''check_requested'' \<and> c \<notin> set (column_names (h ! df))"
  let ?t = "DataFrame_setitem (h ! df) ''check_requested'' (replicate (nrows (h ! df)) (CBool True))"
  from c have "c \<notin> set (column_names ?t)"
    by (simp add: set_column_names_setitem)
  moreover from c have "c \<in> set (WordCoordinates V @ [''check_requested''] @ algorithm_required_columns alg)"
    by auto
  ultimately have "ensure_df_contains (WordCoordinates V @ [''check_requested''] @ algorithm_required_columns alg) ?t
      = Inl ValidationError"
    by (rule ensure_df_contains_missing [rotated])
  with live have "NlpAlgorithm_validate_input V alg (h[df := ?t]) df = Inl ValidationError"
    by (simp add: NlpAlgorithm_validate_input_def)
  then show "NlpAlgorithm_run V alg h df = (Inl ValidationError, h[df := ?t])"
    by (simp add: NlpAlgorithm_run_def put_check_requested_None)
qed

text \<open>The table that \<^verbatim>\<open>run\<close> leaves is not the table it was given: an algorithm
  that requires a column \<^verbatim>\<open>pos\<close>, run on the two-row table, raises the validation
  error and leaves the table with a fourth column.\<close>

theorem run_modifies_table_before_validation:
  "''pos'' \<in> set (algorithm_required_columns (NlpAlgorithm_init ''status'' None [''pos''])) \<and>
   ''pos'' \<notin> set (column_names two_row_table) \<and>
   NlpAlgorithm_run example_validations (NlpAlgorithm_init ''status'' None [''pos'']) [two_row_table] 0
     = (Inl ValidationError, [checked_table]) \<and>
   checked_table \<noteq> two_row_table"
  by (simp add: NlpAlgorithm_run_def put_check_requested_None NlpAlgorithm_validate_input_def
      NlpAlgorithm_init_def example_validations_def ensure_df_contains_def column_names_def
      two_row_table_def checked_table_def DataFrame_setitem_def nrows_def numeral_2_eq_2)

theorem missing_column_fails_before_inner_step_witness:
  "(0::nat) < length [two_row_table] \<and>
   NlpAnalyzer_analyze example_validations (NlpAnalyzer_init [''word_id''] [''pos'']) [two_row_table] 0
     = (Inl ValidationError, [two_row_table]) \<and>
   NlpAnalyzer_apply example_pandas example_validations (NlpAnalyzer_init [''word_id''] [''pos'']) [two_row_table] 0
     = (Inl ValidationError, [two_row_table]) \<and>
   NlpAlgorithm_run example_validations (NlpAlgorithm_init ''status'' None [''pos'']) [two_row_table] 0
     = (Inl ValidationError, [checked_table])"
proof -
  have live: "(0::nat) < length [two_row_table]" by simp
  have a: "''pos'' \<in> set (WordCoordinates example_validations @
              analyzer_required_columns (NlpAnalyzer_init [''word_id''] [''pos''])) \<and>
           ''pos'' \<notin> set (column_names ([two_row_table] ! 0))"
    by (simp add: NlpAnalyzer_init_def column_names_def two_row_table_def)
  have b: "''pos'' \<in> set (WordCoordinates example_validations @
              algorithm_required_columns (NlpAlgorithm_init ''status'' None [''pos''])) \<and>
           ''pos'' \<noteq> ''check_requested'' \<and> ''pos'' \<notin> set (column_names ([two_row_table] ! 0))"
    by (simp add: NlpAlgorithm_init_def column_names_def two_row_table_def)
  have t: "DataFrame_setitem two_row_table ''check_requested''
             (replicate (nrows two_row_table) (CBool True)) = checked_table"
    by (simp add: two_row_table_def checked_table_def DataFrame_setitem_def nrows_def numeral_2_eq_2)
  note m = missing_column_fails_before_inner_step [OF live,
      where V = example_validations and a = "NlpAnalyzer_init [''word_id''] [''pos'']"
        and P = example_pandas and alg = "NlpAlgorithm_init ''status'' None [''pos'']"]
  from m [THEN conjunct1, rule_format, OF a] m [THEN conjunct2, rule_format, OF b] t live
  show ?thesis by simp
qed

lemma ensure_df_contains_setitem:
  "ensure_df_contains cols (DataFrame_setitem df name vals) =
     ensure_df_contains (filter (\<lambda>c. c \<noteq> name) cols) df"
  by (auto simp add: ensure_df_contains_def list_all_iff set_column_names_setitem)

lemma ensure_df_contains_cases:
  "ensure_df_contains cols df = Inl ValidationError \<or> ensure_df_contains cols df = Inr ()"
  by (simp add: ensure_df_contains_def)

lemma two_row_table_checked:
  "DataFrame_setitem two_row_table ''check_requested''
     (replicate (nrows two_row_table) (CBool True)) = checked_table"
  by (simp add: two_row_table_def checked_table_def DataFrame_setitem_def nrows_def numeral_2_eq_2)

lemma checked_table_status:
  "DataFrame_setitem checked_table ''status''
     (replicate (nrows checked_table) (CBool True)) = status_table"
  by (simp add: status_table_def checked_table_def DataFrame_setitem_def nrows_def numeral_2_eq_2)

section \<open>NlpAlgorithm.run\<close>

text \<open>
  C5. \<^verbatim>\<open>run(table)\<close> first sets \<^verbatim>\<open>check_requested\<close> in the table it was given, then
  validates that table (so the check of \<^verbatim>\<open>check_requested\<close> always passes, and
  validation asks of the caller's table only the other columns), then runs the inner
  step on the same reference: a failed validation ends \<^verbatim>\<open>run\<close> before the inner step,
  with the table as \<^verbatim>\<open>put_check_requested\<close> left it; otherwise the outcome and the
  store of \<^verbatim>\<open>run\<close> are those of the inner step. \<^verbatim>\<open>run\<close> returns no table.
\<close>

theorem run_composes_in_order:
  "df < length h \<Longrightarrow>
     (let h1 = h[df := DataFrame_setitem (h ! df) ''check_requested''
                         (replicate (nrows (h ! df)) (CBool True))] in
        put_check_requested h df None = (Inr df, h1) \<and>
        NlpAlgorithm_validate_input V self h1 df =
          ensure_df_contains
            (filter (\<lambda>c. c \<noteq> ''check_requested'')
               (WordCoordinates V @ algorithm_required_columns self)) (h ! df) \<and>
        (NlpAlgorithm_validate_input V self h1 df = Inl ValidationError \<longrightarrow>
           NlpAlgorithm_run V self h df = (Inl ValidationError, h1)) \<and>
        (NlpAlgorithm_validate_input V self h1 df = Inr () \<longrightarrow>
           NlpAlgorithm_run V self h df = run_inner self h1 df) \<and>
        (NlpAlgorithm_validate_input V self h1 df = Inl ValidationError \<or>
         NlpAlgorithm_validate_input V self h1 df = Inr ()))"
  by (simp add: Let_def put_check_requested_None NlpAlgorithm_run_def
      NlpAlgorithm_validate_input_def ensure_df_contains_setitem ensure_df_contains_cases)

theorem run_composes_in_order_witness:
  "(0::nat) < length [two_row_table] \<and>
   NlpAlgorithm_validate_input example_validations example_algorithm [checked_table] 0 = Inr () \<and>
   NlpAlgorithm_run example_validations example_algorithm [two_row_table] 0
     = (Inr (), [status_table])"
proof -
  have live: "(0::nat) < length [two_row_table]" by simp
  have v: "NlpAlgorithm_validate_input example_validations example_algorithm [checked_table] 0 = Inr ()"
    by (simp add: NlpAlgorithm_validate_input_def example_validations_def example_algorithm_def
        NlpAlgorithm_init_def ensure_df_contains_def column_names_def checked_table_def)
  have i: "run_inner example_algorithm [checked_table] 0 = (Inr (), [status_table])"
    by (simp add: example_algorithm_def NlpAlgorithm_init_def checked_table_status)
  from run_composes_in_order [OF live, of example_validations example_algorithm] v i live
  show ?thesis by (simp add: Let_def two_row_table_checked)
qed

section \<open>The abstract inner steps\<close>

text \<open>
  C6. An analyzer or algorithm of a class that keeps the inner step of the base class
  raises NotImplementedError on every valid table: \<^verbatim>\<open>analyze\<close> and \<^verbatim>\<open>apply\<close> on a
  table with the coordinate and required columns, \<^verbatim>\<open>run\<close> on a table that has them
  once \<^verbatim>\<open>check_requested\<close> is set.
\<close>

theorem inner_step_not_overridden_raises:
  "df < length h \<Longrightarrow>
     (set (WordCoordinates V @ required) \<subseteq> set (column_names (h ! df)) \<longrightarrow>
        NlpAnalyzer_analyze V (NlpAnalyzer_init join_by_columns required) h df
          = (Inl NotImplementedError, h) \<and>
        NlpAnalyzer_apply P V (NlpAnalyzer_init join_by_columns required) h df
          = (Inl NotImplementedError, h)) \<and>
     (set (WordCoordinates V @ required) \<subseteq> insert ''check_requested'' (set (column_names (h ! df))) \<longrightarrow>
        NlpAlgorithm_run V (NlpAlgorithm_init status suggest required) h df
          = (Inl NotImplementedError,
             h[df := DataFrame_setitem (h ! df) ''check_requested''
                       (replicate (nrows (h ! df)) (CBool True))]))"
  by (auto simp add: NlpAnalyzer_analyze_def NlpAnalyzer_apply_def NlpAnalyzer_validate_input_def
      NlpAnalyzer_init_def NlpAlgorithm_run_def put_check_requested_None
      NlpAlgorithm_validate_input_def NlpAlgorithm_init_def ensure_df_contains_present
      set_column_names_setitem)

theorem inner_step_not_overridden_raises_witness:
  "(0::nat) < length [two_row_table] \<and>
   set (WordCoordinates example_validations @ []) \<subseteq> set (column_names two_row_table) \<and>
   NlpAnalyzer_analyze example_validations (NlpAnalyzer_init [''word_id''] []) [two_row_table] 0
     = (Inl NotImplementedError, [two_row_table]) \<and>
   NlpAnalyzer_apply example_pandas example_validations (NlpAnalyzer_init [''word_id''] []) [two_row_table] 0
     = (Inl NotImplementedError, [two_row_table]) \<and>
   NlpAlgorithm_run example_validations (NlpAlgorithm_init ''status'' None []) [two_row_table] 0
     = (Inl NotImplementedError, [checked_table])"
proof -
  have live: "(0::nat) < length [two_row_table]" by simp
  have v: "set (WordCoordinates example_validations @ []) \<subseteq> set (column_names two_row_table)"
    by (simp add: example_validations_def column_names_def two_row_table_def)
  from inner_step_not_overridden_raises [OF live, where V = example_validations
      and required = "[]" and join_by_columns = "[''word_id'']" and P = example_pandas
      and status = "''status''" and suggest = None] v live
  show ?thesis by (auto simp add: two_row_table_checked)
qed

text \<open>
  C10. The inner step of PyMorphAnalyzer is an empty body: on every table with the
  coordinate columns, \<^verbatim>\<open>analyze\<close> returns \<^verbatim>\<open>None\<close>, raises nothing and leaves every
  table as it was.
\<close>

theorem PyMorphAnalyzer_analyze_returns_None:
  "set (WordCoordinates V) \<subseteq> set (column_names (h ! df)) \<Longrightarrow>
     NlpAnalyzer_analyze V PyMorphAnalyzer_init h df = (Inr None, h)"
  by (simp add: NlpAnalyzer_analyze_def NlpAnalyzer_validate_input_def PyMorphAnalyzer_init_def
      NlpAnalyzer_init_def ensure_df_contains_present)

theorem PyMorphAnalyzer_analyze_returns_None_witness:
  "set (WordCoordinates example_validations) \<subseteq> set (column_names ([two_row_table] ! 0)) \<and>
   NlpAnalyzer_analyze example_validations PyMorphAnalyzer_init [two_row_table] 0
     = (Inr None, [two_row_table])"
proof -
  have v: "set (WordCoordinates example_validations) \<subseteq> set (column_names ([two_row_table] ! 0))"
    by (simp add: example_validations_def column_names_def two_row_table_def)
  from PyMorphAnalyzer_analyze_returns_None [OF v] v show ?thesis by simp
qed

section \<open>NlpAlgorithm.run_on_text and NlpAlgorithm.run_on_string\<close>

lemma run_on_valid_table:
  assumes "df < length h"
    and "set (WordCoordinates V @ algorithm_required_columns self)
           \<subseteq> insert ''check_requested'' (set (column_names (h ! df)))"
  shows "NlpAlgorithm_run V self h df = run_inner self (h[df := all_requested (h ! df)]) df"
  using assms
  by (auto simp add: NlpAlgorithm_run_def put_check_requested_None
      NlpAlgorithm_validate_input_def ensure_df_contains_present set_column_names_setitem)

lemma run_returns_inner:
  assumes "df < length h" and "NlpAlgorithm_run V self h df = (Inr u, h2)"
  shows "run_inner self (h[df := all_requested (h ! df)]) df = (Inr u, h2)"
  using assms
  by (auto simp add: NlpAlgorithm_run_def put_check_requested_None split: sum.splits)

lemma run_on_new_table_returns:
  assumes keeps: "\<forall>h1 h1'. run_inner self h1 (length h) = (Inr (), h1') \<longrightarrow>
         column_of (h1' ! length h) ''check_requested''
           = column_of (h1 ! length h) ''check_requested''"
    and run: "NlpAlgorithm_run V self (h @ [t]) (length h) = (Inr u, h2)"
  shows "column_of (h2 ! length h) ''check_requested'' = Some (replicate (nrows t) (CBool True))"
proof -
  have "run_inner self ((h @ [t])[length h := all_requested ((h @ [t]) ! length h)]) (length h)
          = (Inr u, h2)"
    using run by (intro run_returns_inner) auto
  then have "run_inner self (h @ [all_requested t]) (length h) = (Inr (), h2)"
    by simp
  with keeps have "column_of (h2 ! length h) ''check_requested''
      = column_of ((h @ [all_requested t]) ! length h) ''check_requested''"
    by blast
  then show ?thesis by (simp add: column_of_setitem)
qed

text \<open>
  C9. \<^verbatim>\<open>run_on_text\<close> and \<^verbatim>\<open>run_on_string\<close> do not use \<^verbatim>\<open>paragraphs_to_check\<close>:
  with any set of ids they do what they do with \<^verbatim>\<open>None\<close>. On a valid table from the
  separator, the inner step receives the new table with \<^verbatim>\<open>check_requested\<close> true in
  every row, whatever the set; and when the inner step leaves that column alone, so is the
  column of the table returned.
\<close>

theorem run_on_text_ignores_paragraphs_to_check:
  "run_on_text V Sep self h text (Some vs) = run_on_text V Sep self h text None \<and>
   run_on_string V Sep self h s (Some vs) = run_on_string V Sep self h s None \<and>
   (\<forall>t. set (WordCoordinates V @ algorithm_required_columns self)
          \<subseteq> insert ''check_requested'' (set (column_names t)) \<longrightarrow>
        (separate_paragraphs Sep text = Inr t \<longrightarrow>
           run_on_text V Sep self h text (Some vs) =
             (case run_inner self (h @ [all_requested t]) (length h) of
                (Inl e, h1) \<Rightarrow> (Inl e, h1) | (Inr u, h1) \<Rightarrow> (Inr (length h), h1))) \<and>
        (separate_string Sep s = Inr t \<longrightarrow>
           run_on_string V Sep self h s (Some vs) =
             (case run_inner self (h @ [all_requested t]) (length h) of
                (Inl e, h1) \<Rightarrow> (Inl e, h1) | (Inr u, h1) \<Rightarrow> (Inr (length h), h1)))) \<and>
   ((\<forall>h1 h1'. run_inner self h1 (length h) = (Inr (), h1') \<longrightarrow>
         column_of (h1' ! length h) ''check_requested''
           = column_of (h1 ! length h) ''check_requested'') \<longrightarrow>
    (\<forall>t df h2. (separate_paragraphs Sep text = Inr t \<and>
                  run_on_text V Sep self h text (Some vs) = (Inr df, h2)) \<or>
                (separate_string Sep s = Inr t \<and>
                  run_on_string V Sep self h s (Some vs) = (Inr df, h2)) \<longrightarrow>
       df = length h \<and>
       column_of (h2 ! df) ''check_requested'' = Some (replicate (nrows t) (CBool True))))"
proof (intro conjI allI impI)
  show "run_on_text V Sep self h text (Some vs) = run_on_text V Sep self h text None"
    by (simp add: run_on_text_def)
  show "run_on_string V Sep self h s (Some vs) = run_on_string V Sep self h s None"
    by (simp add: run_on_string_def)
next
  fix t
  assume valid: "set (WordCoordinates V @ algorithm_required_columns self)
          \<subseteq> insert ''check_requested'' (set (column_names t))"
  have r: "NlpAlgorithm_run V self (h @ [t]) (length h)
             = run_inner self (h @ [all_requested t]) (length h)"
    using run_on_valid_table [of "length h" "h @ [t]" V self] valid by simp
  { assume "separate_paragraphs Sep text = Inr t"
    then show "run_on_text V Sep self h text (Some vs) =
             (case run_inner self (h @ [all_requested t]) (length h) of
                (Inl e, h1) \<Rightarrow> (Inl e, h1) | (Inr u, h1) \<Rightarrow> (Inr (length h), h1))"
      by (simp add: run_on_text_def r Let_def) }
  { assume "separate_string Sep s = Inr t"
    then show "run_on_string V Sep self h s (Some vs) =
             (case run_inner self (h @ [all_requested t]) (length h) of
                (Inl e, h1) \<Rightarrow> (Inl e, h1) | (Inr u, h1) \<Rightarrow> (Inr (length h), h1))"
      by (simp add: run_on_string_def r Let_def) }
next
  fix t df h2
  assume keeps: "\<forall>h1 h1'. run_inner self h1 (length h) = (Inr (), h1') \<longrightarrow>
         column_of (h1' ! length h) ''check_requested''
           = column_of (h1 ! length h) ''check_requested''"
  assume "(separate_paragraphs Sep text = Inr t \<and>
                  run_on_text V Sep self h text (Some vs) = (Inr df, h2)) \<or>
                (separate_string Sep s = Inr t \<and>
                  run_on_string V Sep self h s (Some vs) = (Inr df, h2))"
  then have "df = length h \<and> (\<exists>u. NlpAlgorithm_run V self (h @ [t]) (length h) = (Inr u, h2))"
    by (auto simp add: run_on_text_def run_on_string_def Let_def split: sum.splits prod.splits)
  then obtain u where df: "df = length h"
    and run: "NlpAlgorithm_run V self (h @ [t]) (length h) = (Inr u, h2)"
    by blast
  show "df = length h" by (rule df)
  show "column_of (h2 ! df) ''check_requested'' = Some (replicate (nrows t) (CBool True))"
    unfolding df by (rule run_on_new_table_returns [OF keeps run])
qed

theorem run_on_text_ignores_paragraphs_to_check_witness:
  "run_on_text example_validations example_separator example_algorithm [] [''text''] (Some {2})
     = (Inr 0, [status_table]) \<and>
   run_on_text example_validations example_separator example_algorithm [] [''text''] None
     = (Inr 0, [status_table]) \<and>
   run_on_string example_validations example_separator example_algorithm [] ''text'' (Some {2})
     = (Inr 0, [status_table]) \<and>
   run_on_string example_validations example_separator example_algorithm [] ''text'' None
     = (Inr 0, [status_table]) \<and>
   column_of status_table ''check_requested'' = Some [CBool True, CBool True]"
proof -
  have valid: "set (WordCoordinates example_validations @ algorithm_required_columns example_algorithm)
          \<subseteq> insert ''check_requested'' (set (column_names two_row_table))"
    by (simp add: example_validations_def example_algorithm_def NlpAlgorithm_init_def
        column_names_def two_row_table_def)
  have sp: "separate_paragraphs example_separator [''text''] = Inr two_row_table"
    and ss: "separate_string example_separator ''text'' = Inr two_row_table"
    by (simp_all add: example_separator_def)
  have i: "run_inner example_algorithm [checked_table] 0 = (Inr (), [status_table])"
    by (simp add: example_algorithm_def NlpAlgorithm_init_def checked_table_status)
  note t = run_on_text_ignores_paragraphs_to_check [of example_validations example_separator
      example_algorithm "[]" "[''text'']" "{2}" "''text''"]
  have a: "run_on_text example_validations example_separator example_algorithm [] [''text''] (Some {2})
     = (Inr 0, [status_table])"
    using t [THEN conjunct2, THEN conjunct2, THEN conjunct1, rule_format, OF valid, THEN conjunct1,
        rule_format, OF sp] i
    by (simp add: two_row_table_checked)
  have b: "run_on_string example_validations example_separator example_algorithm [] ''text'' (Some {2})
     = (Inr 0, [status_table])"
    using t [THEN conjunct2, THEN conjunct2, THEN conjunct1, rule_format, OF valid, THEN conjunct2,
        rule_format, OF ss] i
    by (simp add: two_row_table_checked)
  have keeps: "\<forall>h1 h1'. run_inner example_algorithm h1 (length ([]::heap)) = (Inr (), h1') \<longrightarrow>
         column_of (h1' ! length ([]::heap)) ''check_requested''
           = column_of (h1 ! length ([]::heap)) ''check_requested''"
  proof (intro allI impI)
    fix h1 h1' :: heap
    assume "run_inner example_algorithm h1 (length ([]::heap)) = (Inr (), h1')"
    then have h1': "h1' = h1[0 := DataFrame_setitem (h1 ! 0) ''status''
                                    (replicate (nrows (h1 ! 0)) (CBool True))]"
      by (simp add: example_algorithm_def NlpAlgorithm_init_def)
    show "column_of (h1' ! length ([]::heap)) ''check_requested''
            = column_of (h1 ! length ([]::heap)) ''check_requested''"
      unfolding h1' by (cases h1) (simp_all add: column_of_setitem)
  qed
  have d: "column_of ([status_table] ! 0) ''check_requested''
             = Some (replicate (nrows two_row_table) (CBool True))"
    using t [THEN conjunct2, THEN conjunct2, THEN conjunct2, THEN mp, OF keeps,
        THEN spec, THEN spec, THEN spec, of two_row_table 0 "[status_table]"] sp a
    by simp
  have c: "column_of status_table ''check_requested'' = Some [CBool True, CBool True]"
    by (simp add: column_of_def status_table_def)
  from a b c d t [THEN conjunct1] t [THEN conjunct2, THEN conjunct1] show ?thesis by simp
qed

section \<open>Facts about the join\<close>









lemma column_names_join_frames:
  "join_frames P left right on = Inr t \<Longrightarrow> column_names t = column_names left @ column_names right"
  by (auto simp add: join_frames_def column_names_def Let_def o_def split: if_splits)


section \<open>The examples, evaluated\<close>

lemma valid_two_row_table:
  "ensure_df_contains (WordCoordinates example_validations @ []) two_row_table = Inr ()"
  by (simp add: ensure_df_contains_def example_validations_def column_names_def two_row_table_def)

lemma upt_2: "[0..<2] = [0, 1]"
  by (simp add: numeral_2_eq_2)

lemma float64_small: "\<bar>n\<bar> < 2 ^ 53 \<Longrightarrow> float64 n = n"
  by (simp add: float64_def)

lemma bitlen_0: "bitlen 0 = 0"
  by (simp add: bitlen.simps)

lemma bitlen_pos: "0 < n \<Longrightarrow> bitlen n = Suc (bitlen (n div 2))"
  by (subst bitlen.simps) simp

lemma bitlen_large: "bitlen 9007199254740993 = 54"
  by (simp add: bitlen_pos bitlen_0)

lemma float64_large: "float64 9007199254740993 = 9007199254740992"
  by (simp add: float64_def bitlen_large Let_def)

lemmas join_eval =
  join_frames_def join_pairs_def row_matches_def row_key_def refused_key_def numeric_column_def
  is_int_def is_bool_def stored_def example_pandas_def is_int64_def column_of_def
  column_names_def nrows_def Let_def upt_2

lemma join_two_row_derived:
  "join_frames example_pandas two_row_table derived_table [''word_id''] = Inr joined_table"
  by (simp add: join_eval two_row_table_def derived_table_def joined_table_def float64_small)

lemma join_two_row_duplicate:
  "join_frames example_pandas two_row_table duplicate_table [''word_id''] = Inr duplicated_table"
  by (simp add: join_eval two_row_table_def duplicate_table_def duplicated_table_def float64_small)

lemma join_marked_derived:
  "join_frames example_pandas marked_table derived_table [''word_id''] = Inr marked_joined_table"
  by (simp add: join_eval marked_table_def derived_table_def marked_joined_table_def float64_small)

lemma join_two_row_large:
  "join_frames example_pandas two_row_table large_table [''word_id''] = Inr rounded_table"
  by (simp add: join_eval two_row_table_def large_table_def rounded_table_def float64_large)

lemmas apply_eval =
  NlpAnalyzer_apply_def NlpAnalyzer_analyze_def NlpAnalyzer_validate_input_def
  NlpAnalyzer_init_def valid_two_row_table [simplified] returns_new_table_def DataFrame_join_def

lemma example_analyzer_apply:
  "NlpAnalyzer_apply example_pandas example_validations example_analyzer [two_row_table] 0
     = (Inr 2, [two_row_table, derived_table, joined_table])"
  by (simp add: apply_eval example_analyzer_def join_two_row_derived)

lemma duplicating_analyzer_apply:
  "NlpAnalyzer_apply example_pandas example_validations duplicating_analyzer [two_row_table] 0
     = (Inr 2, [two_row_table, duplicate_table, duplicated_table])"
  by (simp add: apply_eval duplicating_analyzer_def join_two_row_duplicate)

lemma two_row_table_marked:
  "DataFrame_setitem two_row_table ''tmp'' (replicate (nrows two_row_table) (CBool True))
     = marked_table"
  by (simp add: two_row_table_def marked_table_def DataFrame_setitem_def nrows_def numeral_2_eq_2)

lemma marking_analyzer_apply:
  "NlpAnalyzer_apply example_pandas example_validations marking_analyzer [two_row_table] 0
     = (Inr 2, [marked_table, derived_table, marked_joined_table])"
  by (simp add: apply_eval marking_analyzer_def two_row_table_marked join_marked_derived)

lemma PyMorphAnalyzer_apply:
  "NlpAnalyzer_apply example_pandas example_validations PyMorphAnalyzer_init [two_row_table] 0
     = (Inl ValueError, [two_row_table])"
  by (simp add: apply_eval PyMorphAnalyzer_init_def)

section \<open>NlpAnalyzer.apply\<close>

lemma apply_frame:
  assumes live: "df < length h"
    and grow: "length h \<le> length (snd (analyze_inner a h df))"
    and keep: "\<forall>r<length h. snd (analyze_inner a h df) ! r = h ! r"
  shows "case NlpAnalyzer_apply P V a h df of (res, h') \<Rightarrow>
      length h \<le> length h' \<and> (\<forall>r<length h. h' ! r = h ! r) \<and> h' ! df = h ! df \<and>
      (\<forall>r. res = Inr r \<longrightarrow>
         length h \<le> r \<and> r < length h' \<and> r \<noteq> df \<and>
         (\<exists>other. fst (NlpAnalyzer_analyze V a h df) = Inr (Some other) \<and>
            column_names (h' ! r) =
              column_names (h ! df) @ column_names (snd (NlpAnalyzer_analyze V a h df) ! other)))"
proof -
  obtain res1 h1 where an: "NlpAnalyzer_analyze V a h df = (res1, h1)"
    by (cases "NlpAnalyzer_analyze V a h df")
  have h1: "length h \<le> length h1 \<and> (\<forall>r<length h. h1 ! r = h ! r)"
    using an grow keep by (auto simp add: NlpAnalyzer_analyze_def split: sum.splits)
  show ?thesis
  proof (cases res1)
    case (Inl e)
    with an h1 live show ?thesis by (simp add: NlpAnalyzer_apply_def)
  next
    case (Inr other)
    show ?thesis
    proof (cases other)
      case None
      with Inr an h1 live show ?thesis
        by (simp add: NlpAnalyzer_apply_def DataFrame_join_def)
    next
      case (Some r)
      show ?thesis
      proof (cases "join_frames P (h1 ! df) (h1 ! r) (join_by a)")
        case (Inl e)
        with Some Inr an h1 live show ?thesis
          by (simp add: NlpAnalyzer_apply_def DataFrame_join_def)
      next
        case (Inr t)
        from h1 live have "h1 ! df = h ! df" by simp
        with Inr have "column_names t = column_names (h ! df) @ column_names (h1 ! r)"
          by (simp add: column_names_join_frames)
        with Inr Some \<open>res1 = Inr other\<close> an h1 live show ?thesis
          by (auto simp add: NlpAnalyzer_apply_def DataFrame_join_def nth_append)
      qed
    qed
  qed
qed

text \<open>
  C8, as the code has it. \<^verbatim>\<open>apply\<close> itself writes to no table: validation only reads,
  and the join makes a new table. So when the inner step of the analyzer changes no table
  that existed before the call, every such table, the caller's among them, is after
  \<^verbatim>\<open>apply\<close> what it was before, whether \<^verbatim>\<open>apply\<close> returns or raises. When \<^verbatim>\<open>apply\<close>
  returns, the reference is new, and its table has the columns of the input followed by
  those of the analyzer's table.
\<close>

theorem apply_leaves_table_unchanged:
  "df < length h \<Longrightarrow>
   length h \<le> length (snd (analyze_inner a h df)) \<Longrightarrow>
   (\<forall>r<length h. snd (analyze_inner a h df) ! r = h ! r) \<Longrightarrow>
   (case NlpAnalyzer_apply P V a h df of (res, h') \<Rightarrow>
      length h \<le> length h' \<and> (\<forall>r<length h. h' ! r = h ! r) \<and> h' ! df = h ! df \<and>
      (\<forall>r. res = Inr r \<longrightarrow>
         length h \<le> r \<and> r < length h' \<and> r \<noteq> df \<and>
         (\<exists>other. fst (NlpAnalyzer_analyze V a h df) = Inr (Some other) \<and>
            column_names (h' ! r) =
              column_names (h ! df) @ column_names (snd (NlpAnalyzer_analyze V a h df) ! other))))"
  by (rule apply_frame)

text \<open>\<^verbatim>\<open>apply\<close> hands the caller's table to the inner step: an analyzer whose inner step
  writes a column into it leaves the caller's table changed. And \<^verbatim>\<open>apply\<close> of
  PyMorphAnalyzer, whose inner step returns \<^verbatim>\<open>None\<close>, returns no table on a valid
  table.\<close>

theorem apply_changes_table_or_returns_none:
  "set (WordCoordinates example_validations @ analyzer_required_columns marking_analyzer)
     \<subseteq> set (column_names two_row_table) \<and>
   NlpAnalyzer_apply example_pandas example_validations marking_analyzer [two_row_table] 0
     = (Inr 2, [marked_table, derived_table, marked_joined_table]) \<and>
   marked_table \<noteq> two_row_table \<and>
   set (WordCoordinates example_validations @ analyzer_required_columns PyMorphAnalyzer_init)
     \<subseteq> set (column_names two_row_table) \<and>
   NlpAnalyzer_apply example_pandas example_validations PyMorphAnalyzer_init [two_row_table] 0
     = (Inl ValueError, [two_row_table])"
proof -
  have "set (WordCoordinates example_validations @ analyzer_required_columns marking_analyzer)
     \<subseteq> set (column_names two_row_table)"
    by (simp add: example_validations_def marking_analyzer_def NlpAnalyzer_init_def
        column_names_def two_row_table_def)
  moreover have "marked_table \<noteq> two_row_table"
    by (simp add: two_row_table_def marked_table_def)
  moreover have
    "set (WordCoordinates example_validations @ analyzer_required_columns PyMorphAnalyzer_init)
     \<subseteq> set (column_names two_row_table)"
    by (simp add: example_validations_def PyMorphAnalyzer_init_def NlpAnalyzer_init_def
        column_names_def two_row_table_def)
  ultimately show ?thesis
    using marking_analyzer_apply PyMorphAnalyzer_apply by simp
qed

theorem apply_leaves_table_unchanged_witness:
  "(0::nat) < length [two_row_table] \<and>
   analyze_inner example_analyzer [two_row_table] 0
     = (Inr (Some 1), [two_row_table, derived_table]) \<and>
   NlpAnalyzer_apply example_pandas example_validations example_analyzer [two_row_table] 0
     = (Inr 2, [two_row_table, derived_table, joined_table]) \<and>
   column_names joined_table = column_names two_row_table @ column_names derived_table"
proof -
  have live: "(0::nat) < length [two_row_table]" by simp
  have i: "analyze_inner example_analyzer [two_row_table] 0
             = (Inr (Some 1), [two_row_table, derived_table])"
    by (simp add: example_analyzer_def NlpAnalyzer_init_def returns_new_table_def)
  have grow: "length [two_row_table] \<le> length (snd (analyze_inner example_analyzer [two_row_table] 0))"
    by (simp add: i)
  have keep: "\<forall>r<length [two_row_table].
      snd (analyze_inner example_analyzer [two_row_table] 0) ! r = [two_row_table] ! r"
    by (simp add: i)
  have an: "NlpAnalyzer_analyze example_validations example_analyzer [two_row_table] 0
             = (Inr (Some 1), [two_row_table, derived_table])"
    using i by (simp add: NlpAnalyzer_analyze_def NlpAnalyzer_validate_input_def
        example_analyzer_def NlpAnalyzer_init_def valid_two_row_table [simplified])
  from apply_leaves_table_unchanged [OF live grow keep, where P = example_pandas
      and V = example_validations]
  have "column_names joined_table = column_names two_row_table @ column_names derived_table"
    by (simp add: example_analyzer_apply an)
  with live i show ?thesis by (simp add: example_analyzer_apply)
qed

lemma nth_matched_column:
  "i < n \<Longrightarrow>
   map (\<lambda>i. case m i of None \<Rightarrow> CNull | Some j \<Rightarrow> f j) [0..<n] ! i
     = (case m i of None \<Rightarrow> CNull | Some j \<Rightarrow> f j)"
  by simp




section \<open>NlpAnalyzationPipeline.analyze_dataframe\<close>

lemma update_new_key:
  "k \<notin> set (map fst al) \<Longrightarrow> AList.update k v al = al @ [(k, v)]"
  by (induction al) auto

lemma apply_step:
  assumes "changes_no_table a df" and "df < length h"
    and "NlpAnalyzer_apply P V a h df = (Inr r, h1)"
  shows "length h \<le> length h1 \<and> (\<forall>r'<length h. h1 ! r' = h ! r') \<and> r < length h1"
proof -
  from assms(1,2) have grow: "length h \<le> length (snd (analyze_inner a h df))"
    and keep: "\<forall>r<length h. snd (analyze_inner a h df) ! r = h ! r"
    by (simp_all add: changes_no_table_def)
  from apply_frame [OF assms(2) grow keep, where P = P and V = V] assms(3) show ?thesis
    by simp
qed

lemma loop_entries:
  assumes "list_all (\<lambda>na. changes_no_table (snd na) df) as"
    and "list_all (\<lambda>na. apply_returns P V (snd na) df t) as"
    and "df < length h" and "h ! df = t"
    and "distinct (map fst results @ map fst as)"
  shows "\<exists>rs h'. analyze_dataframe_loop P V as h df results
                    = (Inr (results @ zip (map fst as) rs), h') \<and>
           length rs = length as \<and> length h \<le> length h' \<and>
           (\<forall>r<length h. h' ! r = h ! r) \<and>
           (\<forall>k<length as. \<exists>hk hk'.
              df < length hk \<and> hk ! df = t \<and>
              NlpAnalyzer_apply P V (snd (as ! k)) hk df = (Inr (rs ! k), hk') \<and>
              rs ! k < length hk' \<and> length hk' \<le> length h' \<and>
              h' ! (rs ! k) = hk' ! (rs ! k))"
  using assms
proof (induction as arbitrary: h results)
  case Nil
  then show ?case by simp
next
  case (Cons na as)
  from Cons.prems(2,3,4) obtain r h1
    where ap: "NlpAnalyzer_apply P V (snd na) h df = (Inr r, h1)"
    by (auto simp add: apply_returns_def)
  from Cons.prems(1) have "changes_no_table (snd na) df" by simp
  from apply_step [OF this Cons.prems(3) ap]
  have grow: "length h \<le> length h1" and keep: "\<forall>r'<length h. h1 ! r' = h ! r'"
    and r: "r < length h1"
    by simp_all
  from Cons.prems(3) grow have live1: "df < length h1" by simp
  from keep Cons.prems(3,4) have same1: "h1 ! df = t" by simp
  let ?results1 = "results @ [(fst na, r)]"
  have upd: "AList.update (fst na) r results = ?results1"
    using Cons.prems(5) by (intro update_new_key) auto
  have "\<exists>rs h'. analyze_dataframe_loop P V as h1 df ?results1
                    = (Inr (?results1 @ zip (map fst as) rs), h') \<and>
           length rs = length as \<and> length h1 \<le> length h' \<and>
           (\<forall>r<length h1. h' ! r = h1 ! r) \<and>
           (\<forall>k<length as. \<exists>hk hk'.
              df < length hk \<and> hk ! df = t \<and>
              NlpAnalyzer_apply P V (snd (as ! k)) hk df = (Inr (rs ! k), hk') \<and>
              rs ! k < length hk' \<and> length hk' \<le> length h' \<and>
              h' ! (rs ! k) = hk' ! (rs ! k))"
  proof (rule Cons.IH)
    show "list_all (\<lambda>na. changes_no_table (snd na) df) as"
      using Cons.prems(1) by simp
    show "list_all (\<lambda>na. apply_returns P V (snd na) df t) as"
      using Cons.prems(2) by simp
    show "df < length h1" by (rule live1)
    show "h1 ! df = t" by (rule same1)
    show "distinct (map fst ?results1 @ map fst as)"
      using Cons.prems(5) by auto
  qed
  then obtain rs h' where
    loop: "analyze_dataframe_loop P V as h1 df ?results1
             = (Inr (?results1 @ zip (map fst as) rs), h')"
    and len: "length rs = length as"
    and grow': "length h1 \<le> length h'"
    and keep': "\<forall>r<length h1. h' ! r = h1 ! r"
    and ent: "\<forall>k<length as. \<exists>hk hk'.
              df < length hk \<and> hk ! df = t \<and>
              NlpAnalyzer_apply P V (snd (as ! k)) hk df = (Inr (rs ! k), hk') \<and>
              rs ! k < length hk' \<and> length hk' \<le> length h' \<and>
              h' ! (rs ! k) = hk' ! (rs ! k)"
    by blast
  let ?rs = "r # rs"
  have "analyze_dataframe_loop P V (na # as) h df results
          = (Inr (results @ zip (map fst (na # as)) ?rs), h')"
    using ap upd loop by simp
  moreover have "length ?rs = length (na # as)"
    using len by simp
  moreover have "length h \<le> length h'"
    using grow grow' by simp
  moreover have "\<forall>r<length h. h' ! r = h ! r"
    using keep keep' grow by simp
  moreover have "\<exists>hk hk'.
              df < length hk \<and> hk ! df = t \<and>
              NlpAnalyzer_apply P V (snd ((na # as) ! k)) hk df = (Inr (?rs ! k), hk') \<and>
              ?rs ! k < length hk' \<and> length hk' \<le> length h' \<and>
              h' ! (?rs ! k) = hk' ! (?rs ! k)"
    if "k < length (na # as)" for k
  proof (cases k)
    case 0
    have "df < length h \<and> h ! df = t \<and>
              NlpAnalyzer_apply P V (snd na) h df = (Inr r, h1) \<and>
              r < length h1 \<and> length h1 \<le> length h' \<and> h' ! r = h1 ! r"
      using Cons.prems(3,4) ap r grow' keep' by simp
    with 0 show ?thesis by auto
  next
    case (Suc k')
    with that have "k' < length as" by simp
    with ent show ?thesis unfolding Suc by simp
  qed
  ultimately show ?case by blast
qed


lemma apply_reads_only:
  assumes "analyze_inner a = returns_new_table g" and "df < length h"
  shows "NlpAnalyzer_apply P V a h df =
     (case ensure_df_contains (WordCoordinates V @ analyzer_required_columns a) (h ! df) of
        Inl e \<Rightarrow> (Inl e, h)
      | Inr u \<Rightarrow>
         (case g (h ! df) of
            Inl e \<Rightarrow> (Inl e, h)
          | Inr None \<Rightarrow> (Inl ValueError, h)
          | Inr (Some out) \<Rightarrow>
              (case join_frames P (h ! df) out (join_by a) of
                 Inl e \<Rightarrow> (Inl e, h @ [out])
               | Inr t \<Rightarrow> (Inr (Suc (length h)), h @ [out, t]))))"
  using assms
  by (simp add: NlpAnalyzer_apply_def NlpAnalyzer_analyze_def NlpAnalyzer_validate_input_def
      returns_new_table_def DataFrame_join_def nth_append
      split: sum.splits option.splits)

lemma table_of_apply_reads_only:
  assumes "analyze_inner a = returns_new_table g"
  shows "table_of_apply P V a t =
     (case ensure_df_contains (WordCoordinates V @ analyzer_required_columns a) t of
        Inl e \<Rightarrow> Inl e
      | Inr u \<Rightarrow>
         (case g t of
            Inl e \<Rightarrow> Inl e
          | Inr None \<Rightarrow> Inl ValueError
          | Inr (Some out) \<Rightarrow> join_frames P t out (join_by a)))"
  by (simp add: table_of_apply_def apply_reads_only [OF assms]
      split: sum.splits option.splits)

lemma reads_only_apply:
  assumes "reads_only a" and "df < length h"
  shows "(\<forall>t. table_of_apply P V a (h ! df) = Inr t \<longrightarrow>
            (\<exists>out. NlpAnalyzer_apply P V a h df = (Inr (Suc (length h)), h @ [out, t]))) \<and>
         (\<forall>e. table_of_apply P V a (h ! df) = Inl e \<longrightarrow>
            (\<exists>h'. NlpAnalyzer_apply P V a h df = (Inl e, h')))"
proof -
  from assms(1) obtain g where g: "analyze_inner a = returns_new_table g"
    by (auto simp add: reads_only_def)
  show ?thesis
    unfolding table_of_apply_reads_only [OF g] apply_reads_only [OF g assms(2)]
    by (auto split: sum.splits option.splits)
qed

lemma reads_only_table:
  assumes "reads_only a" and "df < length h" and "NlpAnalyzer_apply P V a h df = (Inr r, h')"
  shows "table_of_apply P V a (h ! df) = Inr (h' ! r)"
proof (cases "table_of_apply P V a (h ! df)")
  case (Inl e)
  with reads_only_apply [OF assms(1,2), of P V] assms(3) show ?thesis by auto
next
  case (Inr t)
  with reads_only_apply [OF assms(1,2), of P V] assms(3) show ?thesis
    by (auto simp add: nth_append)
qed

lemma reads_only_changes_no_table: "reads_only a \<Longrightarrow> changes_no_table a df"
  by (auto simp add: reads_only_def changes_no_table_def returns_new_table_def nth_append
      split: sum.splits option.splits)

lemma reads_only_apply_returns:
  assumes "reads_only a" and "table_of_apply P V a t = Inr t'"
  shows "apply_returns P V a df t"
  unfolding apply_returns_def
proof (intro allI impI)
  fix h
  assume "df < length h \<and> h ! df = t"
  with reads_only_apply [OF assms(1), of df h P V] assms(2)
  show "\<exists>r h'. NlpAnalyzer_apply P V a h df = (Inr r, h')"
    by blast
qed

text \<open>
  C4, as the code has it. Take a pipeline that has been built, with the unique names that
  a pipeline is to have, whose analyzers' inner steps change no existing table and whose
  \<^verbatim>\<open>apply\<close> returns a table whenever it is called on the input table. Then
  \<^verbatim>\<open>analyze_dataframe\<close> returns a dictionary with one entry per pair, keyed by the
  supplied names in their order, and changes no table that existed before. The entry of
  each analyzer refers to the table that its \<^verbatim>\<open>apply\<close> returned when called on the input
  reference, which then still held the original table: no analyzer is given what another
  returned. For an analyzer whose inner step only reads its table, that is the table its
  \<^verbatim>\<open>apply\<close> returns for the input table taken on its own.
\<close>

theorem analyze_dataframe_entries:
  assumes built: "NlpAnalyzationPipeline_init eager_annotations named_analyzers = Inr self"
    and live: "df < length h"
    and names: "distinct (map fst named_analyzers)"
    and frame: "list_all (\<lambda>na. changes_no_table (snd na) df) named_analyzers"
    and ret: "list_all (\<lambda>na. apply_returns P V (snd na) df (h ! df)) named_analyzers"
  shows "\<exists>results h'. analyze_dataframe P V self h df = (Inr results, h') \<and>
           map fst results = map fst named_analyzers \<and>
           length results = length named_analyzers \<and>
           (\<forall>r<length h. h' ! r = h ! r) \<and>
           (\<forall>k<length named_analyzers. \<exists>hk hk'.
              df < length hk \<and> hk ! df = h ! df \<and>
              NlpAnalyzer_apply P V (snd (named_analyzers ! k)) hk df
                = (Inr (snd (results ! k)), hk') \<and>
              snd (results ! k) < length hk' \<and> length hk' \<le> length h' \<and>
              h' ! snd (results ! k) = hk' ! snd (results ! k) \<and>
              (reads_only (snd (named_analyzers ! k)) \<longrightarrow>
                 table_of_apply P V (snd (named_analyzers ! k)) (h ! df)
                   = Inr (h' ! snd (results ! k))))"
proof -
  from built have self: "analyzers self = named_analyzers"
    by (auto simp add: NlpAnalyzationPipeline_init_def split: sum.splits)
  from names have "distinct (map fst ([]::(string \<times> ref) list) @ map fst named_analyzers)"
    by simp
  from loop_entries [OF frame ret live refl this]
  obtain rs h' where
    loop: "analyze_dataframe_loop P V named_analyzers h df []
             = (Inr ([] @ zip (map fst named_analyzers) rs), h')"
    and len: "length rs = length named_analyzers"
    and keep: "\<forall>r<length h. h' ! r = h ! r"
    and ent: "\<forall>k<length named_analyzers. \<exists>hk hk'.
              df < length hk \<and> hk ! df = h ! df \<and>
              NlpAnalyzer_apply P V (snd (named_analyzers ! k)) hk df = (Inr (rs ! k), hk') \<and>
              rs ! k < length hk' \<and> length hk' \<le> length h' \<and>
              h' ! (rs ! k) = hk' ! (rs ! k)"
    by blast
  let ?results = "zip (map fst named_analyzers) rs"
  have "analyze_dataframe P V self h df = (Inr ?results, h')"
    using loop self by (simp add: analyze_dataframe_def)
  moreover have "map fst ?results = map fst named_analyzers"
    using len by simp
  moreover have "length ?results = length named_analyzers"
    using len by simp
  moreover have "\<exists>hk hk'.
              df < length hk \<and> hk ! df = h ! df \<and>
              NlpAnalyzer_apply P V (snd (named_analyzers ! k)) hk df
                = (Inr (snd (?results ! k)), hk') \<and>
              snd (?results ! k) < length hk' \<and> length hk' \<le> length h' \<and>
              h' ! snd (?results ! k) = hk' ! snd (?results ! k) \<and>
              (reads_only (snd (named_analyzers ! k)) \<longrightarrow>
                 table_of_apply P V (snd (named_analyzers ! k)) (h ! df)
                   = Inr (h' ! snd (?results ! k)))"
    if k: "k < length named_analyzers" for k
  proof -
    from ent k obtain hk hk' where
      hk: "df < length hk" "hk ! df = h ! df"
      and ap: "NlpAnalyzer_apply P V (snd (named_analyzers ! k)) hk df = (Inr (rs ! k), hk')"
      and r: "rs ! k < length hk'" "length hk' \<le> length h'" "h' ! (rs ! k) = hk' ! (rs ! k)"
      by blast
    have "table_of_apply P V (snd (named_analyzers ! k)) (h ! df) = Inr (h' ! (rs ! k))"
      if "reads_only (snd (named_analyzers ! k))"
      using reads_only_table [OF that hk(1) ap] hk(2) r(3) by simp
    moreover have "snd (?results ! k) = rs ! k"
      using k len by simp
    ultimately show ?thesis
      using hk ap r by auto
  qed
  ultimately show ?thesis using keep by blast
qed


lemma example_analyzer_reads_only: "reads_only example_analyzer"
  unfolding reads_only_def
  by (rule exI [of _ "\<lambda>t. Inr (Some derived_table)"])
     (simp add: example_analyzer_def NlpAnalyzer_init_def)

lemma duplicating_analyzer_reads_only: "reads_only duplicating_analyzer"
  unfolding reads_only_def
  by (rule exI [of _ "\<lambda>t. Inr (Some duplicate_table)"])
     (simp add: duplicating_analyzer_def NlpAnalyzer_init_def)

lemma example_analyzer_table:
  "table_of_apply example_pandas example_validations example_analyzer two_row_table
     = Inr joined_table"
  by (simp add: table_of_apply_def example_analyzer_apply)

lemma duplicating_analyzer_table:
  "table_of_apply example_pandas example_validations duplicating_analyzer two_row_table
     = Inr duplicated_table"
  by (simp add: table_of_apply_def duplicating_analyzer_apply)

lemma valid_marked_table:
  "ensure_df_contains (WordCoordinates example_validations @ []) marked_table = Inr ()"
  by (simp add: ensure_df_contains_def example_validations_def column_names_def marked_table_def)

lemma example_analyzer_apply_marked:
  "NlpAnalyzer_apply example_pandas example_validations example_analyzer
       [marked_table, derived_table, marked_joined_table] 0
     = (Inr 4, [marked_table, derived_table, marked_joined_table, derived_table,
                marked_joined_table])"
  by (simp add: NlpAnalyzer_apply_def NlpAnalyzer_analyze_def NlpAnalyzer_validate_input_def
      NlpAnalyzer_init_def valid_marked_table [simplified] returns_new_table_def
      DataFrame_join_def example_analyzer_def join_marked_derived)

lemma morph_pipeline_result:
  "analyze_dataframe example_pandas example_validations morph_pipeline [two_row_table] 0
     = (Inl ValueError, [two_row_table])"
  by (simp add: analyze_dataframe_def morph_pipeline_def PyMorphAnalyzer_apply)

lemma marking_pipeline_result:
  "analyze_dataframe example_pandas example_validations marking_pipeline [two_row_table] 0
     = (Inr [(''a'', 2), (''b'', 4)],
        [marked_table, derived_table, marked_joined_table, derived_table, marked_joined_table])"
  by (simp add: analyze_dataframe_def marking_pipeline_def marking_analyzer_apply
      example_analyzer_apply_marked)

lemma two_name_pipeline_result:
  "analyze_dataframe example_pandas example_validations two_name_pipeline [two_row_table] 0
     = (Inr [(''a'', 2), (''b'', 4)],
        [two_row_table, derived_table, joined_table, duplicate_table, duplicated_table])"
  by (simp add: analyze_dataframe_def two_name_pipeline_def
      apply_reads_only [where g = "\<lambda>t. Inr (Some derived_table)"]
      apply_reads_only [where g = "\<lambda>t. Inr (Some duplicate_table)"]
      example_analyzer_def duplicating_analyzer_def NlpAnalyzer_init_def
      valid_two_row_table [simplified] join_two_row_derived join_two_row_duplicate)

text \<open>On a valid table, the pipeline of PyMorphAnalyzer alone returns no dictionary:
  \<^verbatim>\<open>apply\<close> raises, and so does \<^verbatim>\<open>analyze_dataframe\<close>. And after an analyzer whose
  inner step writes into the input table, the next analyzer is applied to the table so
  changed: its entry is not what its \<^verbatim>\<open>apply\<close> returns for the original table.\<close>

theorem analyze_dataframe_raises_or_sees_changes:
  "NlpAnalyzationPipeline_init False [(''morph'', PyMorphAnalyzer_init)] = Inr morph_pipeline \<and>
   ensure_df_contains (WordCoordinates example_validations) two_row_table = Inr () \<and>
   analyze_dataframe example_pandas example_validations morph_pipeline [two_row_table] 0
     = (Inl ValueError, [two_row_table]) \<and>
   NlpAnalyzationPipeline_init False [(''a'', marking_analyzer), (''b'', example_analyzer)]
     = Inr marking_pipeline \<and>
   analyze_dataframe example_pandas example_validations marking_pipeline [two_row_table] 0
     = (Inr [(''a'', 2), (''b'', 4)],
        [marked_table, derived_table, marked_joined_table, derived_table, marked_joined_table]) \<and>
   table_of_apply example_pandas example_validations example_analyzer two_row_table
     = Inr joined_table \<and>
   marked_joined_table \<noteq> joined_table"
proof -
  have "NlpAnalyzationPipeline_init False [(''morph'', PyMorphAnalyzer_init)] = Inr morph_pipeline"
    by (simp add: NlpAnalyzationPipeline_init_def NlpAnalyzationPipeline_class_def
        morph_pipeline_def)
  moreover have "NlpAnalyzationPipeline_init False
      [(''a'', marking_analyzer), (''b'', example_analyzer)] = Inr marking_pipeline"
    by (simp add: NlpAnalyzationPipeline_init_def NlpAnalyzationPipeline_class_def
        marking_pipeline_def)
  moreover have "marked_joined_table \<noteq> joined_table"
    by (simp add: marked_joined_table_def joined_table_def)
  ultimately show ?thesis
    using morph_pipeline_result marking_pipeline_result example_analyzer_table
      valid_two_row_table
    by simp
qed

theorem analyze_dataframe_entries_witness:
  "NlpAnalyzationPipeline_init False [(''a'', example_analyzer), (''b'', duplicating_analyzer)]
     = Inr two_name_pipeline \<and>
   (0::nat) < length [two_row_table] \<and>
   distinct (map fst [(''a'', example_analyzer), (''b'', duplicating_analyzer)]) \<and>
   changes_no_table example_analyzer 0 \<and> changes_no_table duplicating_analyzer 0 \<and>
   apply_returns example_pandas example_validations example_analyzer 0 two_row_table \<and>
   apply_returns example_pandas example_validations duplicating_analyzer 0 two_row_table \<and>
   analyze_dataframe example_pandas example_validations two_name_pipeline [two_row_table] 0
     = (Inr [(''a'', 2), (''b'', 4)],
        [two_row_table, derived_table, joined_table, duplicate_table, duplicated_table]) \<and>
   table_of_apply example_pandas example_validations example_analyzer two_row_table
     = Inr joined_table \<and>
   table_of_apply example_pandas example_validations duplicating_analyzer two_row_table
     = Inr duplicated_table"
proof -
  have built: "NlpAnalyzationPipeline_init False
      [(''a'', example_analyzer), (''b'', duplicating_analyzer)] = Inr two_name_pipeline"
    by (simp add: NlpAnalyzationPipeline_init_def NlpAnalyzationPipeline_class_def
        two_name_pipeline_def)
  have live: "(0::nat) < length [two_row_table]" by simp
  have names: "distinct (map fst [(''a'', example_analyzer), (''b'', duplicating_analyzer)])"
    by simp
  note c1 = reads_only_changes_no_table [OF example_analyzer_reads_only, of 0]
  note c2 = reads_only_changes_no_table [OF duplicating_analyzer_reads_only, of 0]
  note r1 = reads_only_apply_returns [OF example_analyzer_reads_only example_analyzer_table,
      of 0]
  note r2 = reads_only_apply_returns [OF duplicating_analyzer_reads_only
      duplicating_analyzer_table, of 0]
  have frame: "list_all (\<lambda>na. changes_no_table (snd na) 0)
      [(''a'', example_analyzer), (''b'', duplicating_analyzer)]"
    using c1 c2 by simp
  have ret: "list_all (\<lambda>na. apply_returns example_pandas example_validations (snd na) 0
                ([two_row_table] ! 0))
      [(''a'', example_analyzer), (''b'', duplicating_analyzer)]"
    using r1 r2 by simp
  from analyze_dataframe_entries [OF built live names frame ret]
  have "\<exists>results h'. analyze_dataframe example_pandas example_validations two_name_pipeline
          [two_row_table] 0 = (Inr results, h') \<and>
          length results = length [(''a'', example_analyzer), (''b'', duplicating_analyzer)]"
    by blast
  with built live names c1 c2 r1 r2 two_name_pipeline_result example_analyzer_table
    duplicating_analyzer_table
  show ?thesis by simp
qed

section \<open>NlpAnalyzationPipeline: the class and its delegating methods\<close>

text \<open>Where annotations are evaluated at definition, the class statement raises and no
  pipeline is built; where they are not, \<^verbatim>\<open>__init__\<close> stores the list.\<close>

lemma NlpAnalyzationPipeline_init_eager:
  "NlpAnalyzationPipeline_init True named_analyzers = Inl TypeError"
  by (simp add: NlpAnalyzationPipeline_init_def NlpAnalyzationPipeline_class_def typing_List_def)

lemma NlpAnalyzationPipeline_init_lazy:
  "NlpAnalyzationPipeline_init False named_analyzers = Inr \<lparr>analyzers = named_analyzers\<rparr>"
  by (simp add: NlpAnalyzationPipeline_init_def NlpAnalyzationPipeline_class_def)

text \<open>
  C7. For a pipeline that has been built: \<^verbatim>\<open>df_to_featurization_job(df, **kwargs)\<close> is
  \<^verbatim>\<open>source_to_featurization_job\<close> on the mock source that wraps the table, with the same
  outcome, a job or an error, for all keyword arguments that do not name \<^verbatim>\<open>df\<close>; a
  keyword \<^verbatim>\<open>df\<close> cannot be passed (TypeError), and neither can it be to a constructor
  that has no such keyword, and then the two agree for all keyword arguments. A job that
  \<^verbatim>\<open>df_to_featurization_job\<close> returns is the job that \<^verbatim>\<open>source_to_featurization_job\<close>
  returns, built by the constructor from the mock source, the dictionary of the analyzers
  and the keyword arguments. \<^verbatim>\<open>analyze(source)\<close> is \<^verbatim>\<open>analyze_dataframe\<close> on the new
  table built from the data of the source; a failure of the source or of the table
  constructor is passed on.
\<close>

theorem pipeline_entry_points_delegate:
  assumes built: "NlpAnalyzationPipeline_init eager_annotations named_analyzers = Inr self"
  shows
  "(''df'' \<notin> keyword_names kwargs \<longrightarrow>
      df_to_featurization_job FeaturizationJob self df kwargs
        = source_to_featurization_job FeaturizationJob self (MockDfDataSource df) kwargs) \<and>
   (''df'' \<in> keyword_names kwargs \<longrightarrow>
      df_to_featurization_job FeaturizationJob self df kwargs = Inl TypeError) \<and>
   (\<forall>job. df_to_featurization_job FeaturizationJob self df kwargs = Inr job \<longrightarrow>
      source_to_featurization_job FeaturizationJob self (MockDfDataSource df) kwargs = Inr job \<and>
      FeaturizationJob (MockDfDataSource df) (dict named_analyzers) kwargs = Inr job) \<and>
   ((\<forall>s fs kw. ''df'' \<in> keyword_names kw \<longrightarrow> FeaturizationJob s fs kw = Inl TypeError) \<longrightarrow>
      df_to_featurization_job FeaturizationJob self df kwargs
        = source_to_featurization_job FeaturizationJob self (MockDfDataSource df) kwargs) \<and>
   (\<forall>d t. get_data source = Inr d \<and> DataFrame d = Inr t \<longrightarrow>
      NlpAnalyzationPipeline_analyze P V DataFrame self h source
        = analyze_dataframe P V self (h @ [t]) (length h)) \<and>
   (\<forall>e. get_data source = Inl e \<longrightarrow>
      NlpAnalyzationPipeline_analyze P V DataFrame self h source = (Inl e, h)) \<and>
   (\<forall>d e. get_data source = Inr d \<and> DataFrame d = Inl e \<longrightarrow>
      NlpAnalyzationPipeline_analyze P V DataFrame self h source = (Inl e, h))"
proof -
  from built have self: "analyzers self = named_analyzers"
    by (auto simp add: NlpAnalyzationPipeline_init_def split: sum.splits)
  show ?thesis
    by (auto simp add: df_to_featurization_job_def source_to_featurization_job_def
        NlpAnalyzationPipeline_analyze_def self split: if_splits)
qed

lemma FeaturizationJob_init_rejects_df:
  "''df'' \<in> keyword_names kw \<Longrightarrow> FeaturizationJob_init s fs kw = Inl TypeError"
  by (auto simp add: FeaturizationJob_init_def)

theorem pipeline_entry_points_delegate_witness:
  "NlpAnalyzationPipeline_init False [(''a'', example_analyzer), (''b'', duplicating_analyzer)]
     = Inr two_name_pipeline \<and>
   df_to_featurization_job FeaturizationJob_init two_name_pipeline 0 [(''name'', ''job'')]
     = (Inr \<lparr>job_source = MockDfDataSource 0,
             featurizers = [(''a'', example_analyzer), (''b'', duplicating_analyzer)],
             job_kwargs = [(''name'', ''job'')]\<rparr> :: error + (dataframe, string) FeaturizationJob) \<and>
   source_to_featurization_job FeaturizationJob_init two_name_pipeline (MockDfDataSource 0)
       [(''name'', ''job'')]
     = (Inr \<lparr>job_source = MockDfDataSource 0,
             featurizers = [(''a'', example_analyzer), (''b'', duplicating_analyzer)],
             job_kwargs = [(''name'', ''job'')]\<rparr> :: error + (dataframe, string) FeaturizationJob) \<and>
   df_to_featurization_job FeaturizationJob_init two_name_pipeline 0 [(''df'', ''x'')]
     = (Inl TypeError :: error + (dataframe, string) FeaturizationJob) \<and>
   source_to_featurization_job FeaturizationJob_init two_name_pipeline (MockDfDataSource 0)
       [(''df'', ''x'')]
     = (Inl TypeError :: error + (dataframe, string) FeaturizationJob) \<and>
   NlpAnalyzationPipeline_analyze example_pandas example_validations Inr two_name_pipeline []
       \<lparr>get_data = Inr two_row_table\<rparr>
     = analyze_dataframe example_pandas example_validations two_name_pipeline [two_row_table] 0 \<and>
   analyze_dataframe example_pandas example_validations two_name_pipeline [two_row_table] 0
     = (Inr [(''a'', 2), (''b'', 4)],
        [two_row_table, derived_table, joined_table, duplicate_table, duplicated_table])"
proof -
  have built: "NlpAnalyzationPipeline_init False
      [(''a'', example_analyzer), (''b'', duplicating_analyzer)] = Inr two_name_pipeline"
    by (simp add: NlpAnalyzationPipeline_init_def NlpAnalyzationPipeline_class_def
        two_name_pipeline_def)
  have d: "dict (analyzers two_name_pipeline)
             = [(''a'', example_analyzer), (''b'', duplicating_analyzer)]"
    by (simp add: dict_def two_name_pipeline_def)
  have s1: "source_to_featurization_job FeaturizationJob_init two_name_pipeline
       (MockDfDataSource 0) [(''name'', ''job'')]
     = (Inr \<lparr>job_source = MockDfDataSource 0,
             featurizers = [(''a'', example_analyzer), (''b'', duplicating_analyzer)],
             job_kwargs = [(''name'', ''job'')]\<rparr> :: error + (dataframe, string) FeaturizationJob)"
    by (simp add: source_to_featurization_job_def FeaturizationJob_init_def keyword_names_def d)
  have s2: "source_to_featurization_job FeaturizationJob_init two_name_pipeline
       (MockDfDataSource 0) [(''df'', ''x'')]
     = (Inl TypeError :: error + (dataframe, string) FeaturizationJob)"
    by (simp add: source_to_featurization_job_def FeaturizationJob_init_def keyword_names_def)
  note t1 = pipeline_entry_points_delegate [OF built,
      where FeaturizationJob = "FeaturizationJob_init
          :: dataframe source \<Rightarrow> _ \<Rightarrow> (string \<times> string) list \<Rightarrow> _"
      and kwargs = "[(''name'', ''job'')]" and df = 0
      and source = "\<lparr>get_data = Inr two_row_table\<rparr>" and DataFrame = Inr
      and P = example_pandas and V = example_validations and h = "[]"]
  note t2 = pipeline_entry_points_delegate [OF built,
      where FeaturizationJob = "FeaturizationJob_init
          :: dataframe source \<Rightarrow> _ \<Rightarrow> (string \<times> string) list \<Rightarrow> _"
      and kwargs = "[(''df'', ''x'')]" and df = 0
      and source = "\<lparr>get_data = Inr two_row_table\<rparr>" and DataFrame = Inr
      and P = example_pandas and V = example_validations and h = "[]"]
  have k: "''df'' \<notin> keyword_names [(''name'', ''job'')]"
    by (simp add: keyword_names_def)
  have a1: "df_to_featurization_job FeaturizationJob_init two_name_pipeline 0 [(''name'', ''job'')]
     = (Inr \<lparr>job_source = MockDfDataSource 0,
             featurizers = [(''a'', example_analyzer), (''b'', duplicating_analyzer)],
             job_kwargs = [(''name'', ''job'')]\<rparr> :: error + (dataframe, string) FeaturizationJob)"
    using t1 [THEN conjunct1, THEN mp, OF k] s1 by simp
  have rej: "\<forall>s fs kw. ''df'' \<in> keyword_names kw \<longrightarrow>
      (FeaturizationJob_init s fs kw :: error + (dataframe, string) FeaturizationJob) = Inl TypeError"
    by (simp add: FeaturizationJob_init_rejects_df)
  have a2: "df_to_featurization_job FeaturizationJob_init two_name_pipeline 0 [(''df'', ''x'')]
     = (Inl TypeError :: error + (dataframe, string) FeaturizationJob)"
    using t2 [THEN conjunct2, THEN conjunct2, THEN conjunct2, THEN conjunct1, THEN mp, OF rej] s2
    by simp
  have g: "get_data \<lparr>get_data = Inr two_row_table\<rparr> = (Inr two_row_table :: error + dataframe)
             \<and> (Inr two_row_table :: error + dataframe) = Inr two_row_table"
    by simp
  have b: "NlpAnalyzationPipeline_analyze example_pandas example_validations Inr two_name_pipeline []
       \<lparr>get_data = Inr two_row_table\<rparr>
     = analyze_dataframe example_pandas example_validations two_name_pipeline [two_row_table] 0"
    using t1 [THEN conjunct2, THEN conjunct2, THEN conjunct2, THEN conjunct2, THEN conjunct1,
        THEN spec, THEN spec, THEN mp, OF g]
    by simp
  from built a1 s1 a2 s2 b two_name_pipeline_result show ?thesis by simp
qed

end
